theory Spec2Isabelle
  imports Complex_Main "HOL-Library.AList" "HOL-Library.List_Lexorder" "HOL-Library.Char_ord"
begin

section \<open>Python values\<close>

text \<open>
  The decision engine and the pipeline work on untyped Python values: scores, threshold
  values and the entries of a transaction dictionary. The model keeps the scalar values
  (\<open>None\<close>, \<open>bool\<close>, \<open>int\<close>, \<open>float\<close>, \<open>str\<close>).

  A Python float is modelled by the number it denotes: a finite float is the rational
  \<open>Fin r\<close>, and the three non-finite floats are values of their own. Comparisons of
  floats are exact in Python, so they are exact here; a decimal literal such as \<open>0.4\<close>
  is read as the rational it writes, and float arithmetic is taken without rounding error.
\<close>

datatype pyfloat = Fin rat | PInf | NInf | NaN

datatype pyval = VNone | VBool bool | VInt int | VFloat pyfloat | VStr string

text \<open>
  Exceptions. \<open>ValueError\<close> and \<open>RuntimeError\<close> carry the message the source raises them
  with; \<open>TypeError\<close> is what the interpreter raises for an unsupported operand and
  \<open>AttributeError\<close> what it raises for a method the object does not have;
  \<open>External\<close> is any exception raised inside the preprocessor or the model.
\<close>

datatype exn = ValueError string | TypeError | KeyError string | RuntimeError string
  | AttributeError | External string

text \<open>A dict keeps insertion order and has one entry per key: an association list.\<close>

type_synonym pydict = "(string \<times> pyval) list"

text \<open>
  Python's string formatting of a number is not recomputed here: the two conversions the
  source uses are parameters of the model (\<open>fixed4 x\<close> is \<open>f"{x:.4f}"\<close>, \<open>str_of x\<close> is
  \<open>f"{x}"\<close>).
\<close>

record py_format =
  fixed4 :: "pyval \<Rightarrow> string"
  str_of :: "pyval \<Rightarrow> string"

definition bindE :: "exn + 'a \<Rightarrow> ('a \<Rightarrow> exn + 'b) \<Rightarrow> exn + 'b" where
  "bindE m f = (case m of Inl e \<Rightarrow> Inl e | Inr x \<Rightarrow> f x)"

subsection \<open>Numbers and comparisons\<close>

text \<open>\<open>isinstance(v, (int, float))\<close> holds exactly when \<open>num_of v\<close> is defined (a bool is an int).\<close>

fun num_of :: "pyval \<Rightarrow> pyfloat option" where
  "num_of (VBool b) = Some (Fin (if b then 1 else 0))"
| "num_of (VInt i) = Some (Fin (of_int i))"
| "num_of (VFloat f) = Some f"
| "num_of VNone = None"
| "num_of (VStr s) = None"

definition is_number :: "pyval \<Rightarrow> bool" where
  "is_number v = (num_of v \<noteq> None)"

fun flt_lt :: "pyfloat \<Rightarrow> pyfloat \<Rightarrow> bool" where
  "flt_lt NaN y = False"
| "flt_lt x NaN = False"
| "flt_lt (Fin a) (Fin b) = (a < b)"
| "flt_lt NInf NInf = False"
| "flt_lt NInf y = True"
| "flt_lt x NInf = False"
| "flt_lt PInf y = False"
| "flt_lt x PInf = True"

fun flt_le :: "pyfloat \<Rightarrow> pyfloat \<Rightarrow> bool" where
  "flt_le NaN y = False"
| "flt_le x NaN = False"
| "flt_le (Fin a) (Fin b) = (a \<le> b)"
| "flt_le NInf y = True"
| "flt_le x PInf = True"
| "flt_le x NInf = False"
| "flt_le PInf y = False"

definition flt_eq :: "pyfloat \<Rightarrow> pyfloat \<Rightarrow> bool" where
  "flt_eq x y = (x \<noteq> NaN \<and> x = y)"

text \<open>
  \<open><\<close>, \<open><=\<close>, \<open>>\<close>, \<open>>=\<close>: numbers compare by value, strings lexicographically, every
  other pairing raises \<open>TypeError\<close>.
\<close>

definition py_lt :: "pyval \<Rightarrow> pyval \<Rightarrow> exn + bool" where
  "py_lt a b =
     (case (num_of a, num_of b) of
        (Some x, Some y) \<Rightarrow> Inr (flt_lt x y)
      | _ \<Rightarrow> (case (a, b) of (VStr s, VStr t) \<Rightarrow> Inr (s < t) | _ \<Rightarrow> Inl TypeError))"

definition py_le :: "pyval \<Rightarrow> pyval \<Rightarrow> exn + bool" where
  "py_le a b =
     (case (num_of a, num_of b) of
        (Some x, Some y) \<Rightarrow> Inr (flt_le x y)
      | _ \<Rightarrow> (case (a, b) of (VStr s, VStr t) \<Rightarrow> Inr (s \<le> t) | _ \<Rightarrow> Inl TypeError))"

definition py_gt :: "pyval \<Rightarrow> pyval \<Rightarrow> exn + bool" where
  "py_gt a b = py_lt b a"

definition py_ge :: "pyval \<Rightarrow> pyval \<Rightarrow> exn + bool" where
  "py_ge a b = py_le b a"

text \<open>\<open>==\<close> never raises; \<open>!=\<close> is its negation.\<close>

definition py_eq :: "pyval \<Rightarrow> pyval \<Rightarrow> bool" where
  "py_eq a b =
     (case (num_of a, num_of b) of
        (Some x, Some y) \<Rightarrow> flt_eq x y
      | _ \<Rightarrow> (case (a, b) of
                (VStr s, VStr t) \<Rightarrow> s = t
              | (VNone, VNone) \<Rightarrow> True
              | _ \<Rightarrow> False))"

definition py_ne :: "pyval \<Rightarrow> pyval \<Rightarrow> bool" where
  "py_ne a b = (\<not> py_eq a b)"

subsection \<open>Arithmetic\<close>

fun flt_mul_int :: "pyfloat \<Rightarrow> int \<Rightarrow> pyfloat" where
  "flt_mul_int (Fin r) n = Fin (r * of_int n)"
| "flt_mul_int NaN n = NaN"
| "flt_mul_int PInf n = (if n = 0 then NaN else if 0 < n then PInf else NInf)"
| "flt_mul_int NInf n = (if n = 0 then NaN else if 0 < n then NInf else PInf)"

text \<open>
  \<open>v * n\<close> for an int \<open>n\<close>: a number is multiplied, a string is repeated, \<open>None\<close> raises.
  The product of a float is exact here, where the source's is rounded to a double (and
  overflows to \<open>inf\<close>): at such a boundary the model and the source can differ in
  whether the high-amount rule fires. No property below depends on when it fires.
\<close>

fun py_mul_int :: "pyval \<Rightarrow> int \<Rightarrow> exn + pyval" where
  "py_mul_int (VBool b) n = Inr (VInt ((if b then 1 else 0) * n))"
| "py_mul_int (VInt i) n = Inr (VInt (i * n))"
| "py_mul_int (VFloat f) n = Inr (VFloat (flt_mul_int f n))"
| "py_mul_int (VStr s) n = Inr (VStr (concat (replicate (nat n) s)))"
| "py_mul_int VNone n = Inl TypeError"

fun flt_sub :: "pyfloat \<Rightarrow> pyfloat \<Rightarrow> pyfloat" where
  "flt_sub NaN y = NaN"
| "flt_sub x NaN = NaN"
| "flt_sub (Fin a) (Fin b) = Fin (a - b)"
| "flt_sub PInf PInf = NaN"
| "flt_sub NInf NInf = NaN"
| "flt_sub PInf y = PInf"
| "flt_sub NInf y = NInf"
| "flt_sub x PInf = NInf"
| "flt_sub x NInf = PInf"

fun flt_abs :: "pyfloat \<Rightarrow> pyfloat" where
  "flt_abs (Fin a) = Fin \<bar>a\<bar>"
| "flt_abs PInf = PInf"
| "flt_abs NInf = PInf"
| "flt_abs NaN = NaN"

text \<open>Division by a positive finite constant (the source divides by \<open>0.2\<close> only).\<close>

fun flt_div_pos :: "pyfloat \<Rightarrow> rat \<Rightarrow> pyfloat" where
  "flt_div_pos (Fin a) c = Fin (a / c)"
| "flt_div_pos x c = x"

text \<open>
  The two-argument \<open>min(a, b)\<close> and \<open>max(a, b)\<close> of Python keep the first argument unless
  the second is strictly smaller (larger): a NaN in second place is never chosen.
\<close>

definition py_min2 :: "pyfloat \<Rightarrow> pyfloat \<Rightarrow> pyfloat" where
  "py_min2 a b = (if flt_lt b a then b else a)"

definition py_max2 :: "pyfloat \<Rightarrow> pyfloat \<Rightarrow> pyfloat" where
  "py_max2 a b = (if flt_lt a b then b else a)"

text \<open>
  \<open>round(x, n)\<close> rounds to the nearest multiple of \<open>10^-n\<close>, a tie to the even one.
  It acts here on the rational that the decimal reading gives, where the source's acts
  on the double: the two can differ in the last digit. No property below depends on a
  rounded digit.
\<close>

definition round_half_even :: "rat \<Rightarrow> int" where
  "round_half_even q =
     (let f = \<lfloor>q\<rfloor>; d = q - of_int f
      in if d < 1 / 2 then f else if 1 / 2 < d then f + 1 else if even f then f else f + 1)"

fun flt_round :: "nat \<Rightarrow> pyfloat \<Rightarrow> pyfloat" where
  "flt_round n (Fin r) = Fin (of_int (round_half_even (r * 10 ^ n)) / 10 ^ n)"
| "flt_round n x = x"

fun py_round :: "nat \<Rightarrow> pyval \<Rightarrow> pyval" where
  "py_round n (VFloat f) = VFloat (flt_round n f)"
| "py_round n (VBool b) = VInt (if b then 1 else 0)"
| "py_round n v = v"

subsection \<open>Dictionaries and text\<close>

text \<open>\<open>d[k]\<close> raises \<open>KeyError\<close> on a missing key; \<open>d.get(k, default)\<close> does not.\<close>

definition subscript :: "pydict \<Rightarrow> string \<Rightarrow> exn + pyval" where
  "subscript d k = (case map_of d k of None \<Rightarrow> Inl (KeyError k) | Some v \<Rightarrow> Inr v)"

definition get :: "pydict \<Rightarrow> string \<Rightarrow> pyval \<Rightarrow> pyval" where
  "get d k dflt = (case map_of d k of None \<Rightarrow> dflt | Some v \<Rightarrow> v)"

text \<open>\<open>d.update(other)\<close> stores the entries of \<open>other\<close> one after the other.\<close>

definition dict_update :: "pydict \<Rightarrow> pydict \<Rightarrow> pydict" where
  "dict_update d other = fold (\<lambda>(k, v). AList.update k v) other d"

fun join :: "string \<Rightarrow> string list \<Rightarrow> string" where
  "join sep [] = []"
| "join sep [x] = x"
| "join sep (x # y # ys) = x @ sep @ join sep (y # ys)"

fun show_nat :: "nat \<Rightarrow> string" where
  "show_nat n =
     (if n < 10 then [''0123456789'' ! n]
      else show_nat (n div 10) @ [''0123456789'' ! (n mod 10)])"

text \<open>\<open>f"{n:04d}"\<close>: decimal digits, padded with zeros on the left to four characters.\<close>

definition pad4 :: "nat \<Rightarrow> string" where
  "pad4 n = replicate (4 - length (show_nat n)) (CHR ''0'') @ show_nat n"

section \<open>Configuration (config/config.py)\<close>

definition FRAUD_THRESHOLDS :: pydict where
  "FRAUD_THRESHOLDS =
     [(''allow'', VFloat (Fin (4 / 10))),
      (''verify'', VFloat (Fin (7 / 10))),
      (''block'', VFloat (Fin (7 / 10)))]"

record band =
  b_min :: pyval
  b_max :: pyval
  b_action :: string
  b_color :: string

definition RISK_LEVELS :: "(string \<times> band) list" where
  "RISK_LEVELS =
     [(''LOW'', \<lparr>b_min = VFloat (Fin 0), b_max = VFloat (Fin (4 / 10)),
                 b_action = ''ALLOW'', b_color = ''green''\<rparr>),
      (''MEDIUM'', \<lparr>b_min = VFloat (Fin (4 / 10)), b_max = VFloat (Fin (7 / 10)),
                    b_action = ''VERIFY'', b_color = ''orange''\<rparr>),
      (''HIGH'', \<lparr>b_min = VFloat (Fin (7 / 10)), b_max = VFloat (Fin 1),
                  b_action = ''BLOCK'', b_color = ''red''\<rparr>)]"

section \<open>The decision engine (models/decision\_engine.py)\<close>

text \<open>
  The state of a \<open>FraudDecisionEngine\<close>: its thresholds (a dict that \<open>update_thresholds\<close>
  changes) and the risk bands. Logging is left out: it changes no value.
\<close>

record engine =
  thresholds :: pydict
  risk_levels :: "(string \<times> band) list"

text \<open>\<open>__init__\<close>: \<open>thresholds or FRAUD_THRESHOLDS\<close> falls back for \<open>None\<close> and for an empty dict.\<close>

definition init_engine :: "pydict option \<Rightarrow> engine" where
  "init_engine custom =
     \<lparr>thresholds = (case custom of None \<Rightarrow> FRAUD_THRESHOLDS
                     | Some t \<Rightarrow> if t = [] then FRAUD_THRESHOLDS else t),
      risk_levels = RISK_LEVELS\<rparr>"

definition get_base_action :: "engine \<Rightarrow> pyval \<Rightarrow> exn + string" where
  "get_base_action eng fraud_score =
     bindE (subscript (thresholds eng) ''allow'') (\<lambda>allow.
     bindE (py_lt fraud_score allow) (\<lambda>below_allow.
       if below_allow then Inr ''ALLOW''
       else
         bindE (subscript (thresholds eng) ''block'') (\<lambda>block.
         bindE (py_lt fraud_score block) (\<lambda>below_block.
           if below_block then Inr ''VERIFY'' else Inr ''BLOCK''))))"

text \<open>
  The loop of \<open>_get_risk_level\<close> over the bands in their order; the chained comparison
  \<open>min <= score < max\<close> evaluates its second half only when the first holds.
\<close>

fun risk_level_loop :: "(string \<times> band) list \<Rightarrow> pyval \<Rightarrow> exn + string" where
  "risk_level_loop [] fraud_score = Inr ''HIGH''"
| "risk_level_loop ((level, config) # rest) fraud_score =
     (case py_le (b_min config) fraud_score of
        Inl e \<Rightarrow> Inl e
      | Inr above_min \<Rightarrow>
          if \<not> above_min then risk_level_loop rest fraud_score
          else (case py_lt fraud_score (b_max config) of
                  Inl e \<Rightarrow> Inl e
                | Inr below_max \<Rightarrow>
                    if below_max then Inr level else risk_level_loop rest fraud_score))"

definition get_risk_level :: "engine \<Rightarrow> pyval \<Rightarrow> exn + string" where
  "get_risk_level eng fraud_score = risk_level_loop (risk_levels eng) fraud_score"


subsection \<open>Business rules\<close>

text \<open>
  \<open>_apply_business_rules\<close> runs its rules one after the other on two local variables,
  \<open>final_action\<close> and the list \<open>reasoning\<close>. Each rule is a step on that pair; a
  comparison that raises ends the whole call. An \<open>and\<close> evaluates its right operand only
  when the left one is true, an \<open>or\<close> only when it is false.
\<close>

type_synonym rule_state = "string \<times> string list"

definition high_amount_rule :: "pydict \<Rightarrow> rule_state \<Rightarrow> exn + rule_state" where
  "high_amount_rule td st =
     (let amount = get td ''amount'' (VInt 0);
          avg_amount = get td ''avg_amount_last_week'' (VInt 0)
      in bindE (py_mul_int avg_amount 5) (\<lambda>limit.
         bindE (py_gt amount limit) (\<lambda>over.
           if over \<and> fst st = ''ALLOW''
           then Inr (''VERIFY'', snd st @ [''High amount transaction (>5x average)''])
           else Inr st)))"

definition new_receiver_rule :: "pydict \<Rightarrow> rule_state \<Rightarrow> exn + rule_state" where
  "new_receiver_rule td st =
     (let amount = get td ''amount'' (VInt 0);
          receiver_age = get td ''receiver_age_days'' (VInt 365)
      in bindE (py_lt receiver_age (VInt 7)) (\<lambda>young.
           if \<not> young then Inr st
           else bindE (py_gt amount (VInt 10000)) (\<lambda>large.
             if large \<and> fst st = ''ALLOW''
             then Inr (''VERIFY'', snd st @ [''New receiver (<7 days) with high amount''])
             else Inr st)))"

text \<open>
  The tally of rule 3 works on the counter \<open>risk_indicators\<close> and the reasoning list:
  five checks, each adding one to the counter and appending its reason.
\<close>

type_synonym tally = "nat \<times> string list"

definition unusual_hour_check :: "pydict \<Rightarrow> tally \<Rightarrow> tally" where
  "unusual_hour_check td t =
     (if py_eq (get td ''is_unusual_hour'' (VInt 0)) (VInt 1)
      then (fst t + 1, snd t @ [''Unusual transaction hour'']) else t)"

definition device_check :: "pydict \<Rightarrow> tally \<Rightarrow> tally" where
  "device_check td t =
     (if py_ne (get td ''device_id'' VNone) (get td ''preferred_device'' VNone)
      then (fst t + 1, snd t @ [''New/different device'']) else t)"

definition location_check :: "pydict \<Rightarrow> tally \<Rightarrow> exn + tally" where
  "location_check td t =
     bindE (py_gt (get td ''geo_distance_from_last_txn'' (VInt 0)) (VInt 100)) (\<lambda>far.
       if far then Inr (fst t + 1, snd t @ [''Distant location'']) else Inr t)"

definition frequency_check :: "pydict \<Rightarrow> tally \<Rightarrow> exn + tally" where
  "frequency_check td t =
     bindE (py_gt (get td ''transaction_frequency_last_24h'' (VInt 0)) (VInt 10)) (\<lambda>often.
       if often then Inr (fst t + 1, snd t @ [''High transaction frequency'']) else Inr t)"

definition receiver_check :: "pydict \<Rightarrow> tally \<Rightarrow> exn + tally" where
  "receiver_check td t =
     bindE (py_gt (get td ''receiver_fraud_reports'' (VInt 0)) (VInt 3)) (\<lambda>risky.
       if risky then Inr (fst t + 1, snd t @ [''High-risk receiver'']) else Inr t)"

definition count_indicators :: "pydict \<Rightarrow> string list \<Rightarrow> exn + tally" where
  "count_indicators td reasoning =
     bindE (location_check td (device_check td (unusual_hour_check td (0, reasoning)))) (\<lambda>t3.
     bindE (frequency_check td t3) (\<lambda>t4.
     receiver_check td t4))"

text \<open>The \<open>if\<close>/\<open>elif\<close> that closes rule 3.\<close>

definition escalate :: "nat \<Rightarrow> rule_state \<Rightarrow> rule_state" where
  "escalate risk_indicators st =
     (if 3 \<le> risk_indicators \<and> fst st = ''ALLOW''
      then (''VERIFY'',
            snd st @ [''Multiple risk indicators ('' @ show_nat risk_indicators @ '')''])
      else if 4 \<le> risk_indicators \<and> fst st = ''VERIFY''
      then (''BLOCK'',
            snd st @ [''Too many risk indicators ('' @ show_nat risk_indicators @ '')''])
      else st)"

definition indicator_rule :: "pydict \<Rightarrow> rule_state \<Rightarrow> exn + rule_state" where
  "indicator_rule td st =
     bindE (count_indicators td (snd st)) (\<lambda>t. Inr (escalate (fst t) (fst st, snd t)))"

definition vip_rule :: "pydict \<Rightarrow> rule_state \<Rightarrow> rule_state" where
  "vip_rule td st =
     (if py_eq (get td ''user_type'' (VStr ''regular'')) (VStr ''vip'') \<and> fst st = ''BLOCK''
      then (''VERIFY'', snd st @ [''VIP user - downgraded to verification''])
      else st)"

definition micro_night_rule :: "pydict \<Rightarrow> rule_state \<Rightarrow> exn + rule_state" where
  "micro_night_rule td st =
     (let amount = get td ''amount'' (VInt 0);
          transaction_hour = get td ''transaction_time'' (VInt 12)
      in bindE (py_lt amount (VInt 50)) (\<lambda>micro.
           if \<not> micro then Inr st
           else bindE (py_le transaction_hour (VInt 5)) (\<lambda>early.
                bindE (if early then Inr True else py_ge transaction_hour (VInt 23)) (\<lambda>night.
                  if night \<and> fst st = ''ALLOW''
                  then Inr (''VERIFY'', snd st @ [''Micro transaction during night hours''])
                  else Inr st))))"

text \<open>
  The rules in the order of the source, on a transaction dict; the result is the final
  action and the list of reasons before it is joined.
\<close>

definition business_rules_body ::
  "py_format \<Rightarrow> string \<Rightarrow> pyval \<Rightarrow> pydict \<Rightarrow> exn + rule_state" where
  "business_rules_body fmt base_action fraud_score td =
     bindE (high_amount_rule td (base_action, [''Fraud score: '' @ fixed4 fmt fraud_score]))
       (\<lambda>s1.
     bindE (new_receiver_rule td s1) (\<lambda>s2.
     bindE (indicator_rule td s2) (\<lambda>s3.
     bindE (micro_night_rule td (vip_rule td s3)) (\<lambda>s5.
     Inr (fst s5, snd s5 @ [''Final action: '' @ fst s5])))))"

definition apply_business_rules ::
  "py_format \<Rightarrow> string \<Rightarrow> pyval \<Rightarrow> pydict option \<Rightarrow> exn + (string \<times> string)" where
  "apply_business_rules fmt base_action fraud_score transaction_data =
     (case transaction_data of
        None \<Rightarrow>
          Inr (base_action,
               join '' | '' [''Fraud score: '' @ fixed4 fmt fraud_score,
                             ''Base action: '' @ base_action])
      | Some td \<Rightarrow>
          bindE (business_rules_body fmt base_action fraud_score td) (\<lambda>st.
            Inr (fst st, join '' | '' (snd st))))"

subsection \<open>Confidence\<close>

text \<open>
  The operations of \<open>_calculate_confidence\<close> in their order. The subtraction, the
  division and the rounding are exact here and are binary floating point in the source,
  so the two can differ in the third decimal of the confidence; they agree where the
  confidence saturates at 1.0. No property below is about the digits of a confidence.
\<close>

definition py_sub :: "pyval \<Rightarrow> pyval \<Rightarrow> exn + pyfloat" where
  "py_sub a b =
     (case (num_of a, num_of b) of
        (Some x, Some y) \<Rightarrow> Inr (flt_sub x y)
      | _ \<Rightarrow> Inl TypeError)"

definition calculate_confidence :: "engine \<Rightarrow> pyval \<Rightarrow> exn + pyfloat" where
  "calculate_confidence eng fraud_score =
     bindE (subscript (thresholds eng) ''allow'') (\<lambda>allow.
     bindE (py_sub fraud_score allow) (\<lambda>d_allow.
     bindE (subscript (thresholds eng) ''block'') (\<lambda>block.
     bindE (py_sub fraud_score block) (\<lambda>d_block.
       let min_distance = py_min2 (flt_abs d_allow) (flt_abs d_block);
           confidence = py_min2 (Fin 1) (flt_div_pos min_distance (2 / 10))
       in Inr (flt_round 3 confidence)))))"

subsection \<open>make\_decision\<close>

text \<open>
  The decision record, without its \<open>timestamp\<close> (a reading of the system clock).
\<close>

record decision =
  d_fraud_score :: pyval
  d_risk_level :: string
  d_action :: string
  d_reasoning :: string
  d_confidence :: pyfloat

definition make_decision ::
  "py_format \<Rightarrow> engine \<Rightarrow> pyval \<Rightarrow> pydict option \<Rightarrow> exn + decision" where
  "make_decision fmt eng fraud_score transaction_data =
     (case num_of fraud_score of
        None \<Rightarrow> Inl (ValueError ''Fraud score must be a number'')
      | Some x \<Rightarrow>
          if flt_lt x (Fin 0) \<or> flt_lt (Fin 1) x
          then Inl (ValueError (''Fraud score must be between 0 and 1, got ''
                                @ str_of fmt fraud_score))
          else
            bindE (get_base_action eng fraud_score) (\<lambda>base_action.
            bindE (get_risk_level eng fraud_score) (\<lambda>risk_level.
            bindE (apply_business_rules fmt base_action fraud_score transaction_data) (\<lambda>r.
            bindE (calculate_confidence eng fraud_score) (\<lambda>confidence.
              Inr \<lparr>d_fraud_score = py_round 4 fraud_score,
                   d_risk_level = risk_level,
                   d_action = fst r,
                   d_reasoning = snd r,
                   d_confidence = confidence\<rparr>)))))"


subsection \<open>update\_thresholds\<close>

text \<open>
  What a caller passes where a dict is expected (the argument of \<open>update_thresholds\<close>,
  an item of a batch): a dict, or a value that is not a dict.
\<close>

datatype payload = IsDict pydict | NotDict pyval

text \<open>\<open>0 <= value <= 1\<close>, evaluated on a value that \<open>isinstance\<close> has accepted as a number.\<close>

definition in_unit :: "pyval \<Rightarrow> bool" where
  "in_unit v =
     (case num_of v of Some x \<Rightarrow> flt_le (Fin 0) x \<and> flt_le x (Fin 1) | None \<Rightarrow> False)"

text \<open>The loop of \<open>_validate_thresholds\<close>: it returns \<open>False\<close> at the first bad entry.\<close>

fun validate_items :: "pydict \<Rightarrow> pydict \<Rightarrow> bool" where
  "validate_items th [] = True"
| "validate_items th ((key, v) # rest) =
     (if map_of th key \<noteq> None \<and> (\<not> is_number v \<or> \<not> in_unit v) then False
      else validate_items th rest)"

definition validate_thresholds :: "engine \<Rightarrow> payload \<Rightarrow> exn + bool" where
  "validate_thresholds eng new_thresholds =
     (case new_thresholds of
        NotDict v \<Rightarrow> Inr False
      | IsDict d \<Rightarrow>
          if \<not> validate_items (thresholds eng) d then Inr False
          else
            (let test_thresholds = dict_update (thresholds eng) d
             in bindE (subscript test_thresholds ''allow'') (\<lambda>allow.
                bindE (subscript test_thresholds ''block'') (\<lambda>block.
                py_lt allow block))))"

text \<open>\<open>update_thresholds\<close> returns its boolean and the engine as it is afterwards.\<close>

definition update_thresholds :: "engine \<Rightarrow> payload \<Rightarrow> exn + (bool \<times> engine)" where
  "update_thresholds eng new_thresholds =
     bindE (validate_thresholds eng new_thresholds) (\<lambda>valid.
       if valid then
         (case new_thresholds of
            IsDict d \<Rightarrow> Inr (True, eng\<lparr>thresholds := dict_update (thresholds eng) d\<rparr>)
          | NotDict v \<Rightarrow> Inl TypeError)
       else Inr (False, eng))"

subsection \<open>The action processor\<close>

text \<open>
  The response dict; keys that only some branches set are optional. The
  \<open>support_reference\<close> of a block, a rendering of the system clock, is left out.
\<close>

record action_response =
  r_status :: string
  r_action :: string
  r_message :: string
  r_user_message :: string
  r_next_steps :: "string list"
  r_verification_methods :: "string list option"
  r_fraud_score :: "pyval option"
  r_risk_level :: "string option"

definition process_action :: "decision \<Rightarrow> action_response" where
  "process_action decision_result =
     (if d_action decision_result = ''ALLOW'' then
        \<lparr>r_status = ''success'', r_action = ''ALLOW'',
         r_message = ''Transaction approved successfully'',
         r_user_message = ''Your transaction has been processed'',
         r_next_steps = [''complete_transaction''],
         r_verification_methods = None,
         r_fraud_score = Some (d_fraud_score decision_result),
         r_risk_level = Some (d_risk_level decision_result)\<rparr>
      else if d_action decision_result = ''VERIFY'' then
        \<lparr>r_status = ''pending'', r_action = ''VERIFY'',
         r_message = ''Additional verification required'',
         r_user_message = ''Please complete additional verification for security'',
         r_next_steps = [''send_otp'', ''request_verification''],
         r_verification_methods = Some [''SMS_OTP'', ''EMAIL_OTP'', ''BIOMETRIC''],
         r_fraud_score = Some (d_fraud_score decision_result),
         r_risk_level = Some (d_risk_level decision_result)\<rparr>
      else if d_action decision_result = ''BLOCK'' then
        \<lparr>r_status = ''blocked'', r_action = ''BLOCK'',
         r_message = ''Transaction blocked due to security concerns'',
         r_user_message =
           ''Transaction could not be processed. Please contact customer support if you believe this is an error.'',
         r_next_steps = [''contact_support'', ''manual_review''],
         r_verification_methods = None,
         r_fraud_score = Some (d_fraud_score decision_result),
         r_risk_level = Some (d_risk_level decision_result)\<rparr>
      else
        \<lparr>r_status = ''error'', r_action = ''UNKNOWN'',
         r_message = ''Unable to process transaction'',
         r_user_message = ''Technical error occurred. Please try again later.'',
         r_next_steps = [''retry_later'', ''contact_support''],
         r_verification_methods = None,
         r_fraud_score = Some (d_fraud_score decision_result),
         r_risk_level = Some (d_risk_level decision_result)\<rparr>)"

section \<open>The pipeline (models/fraud\_pipeline.py)\<close>

text \<open>
  The preprocessor and the model are collaborators of the pipeline: functions that return
  a value or raise. The pipeline holds them, its engine and the flag \<open>is_loaded\<close>.
  \<open>predict_fraud_probability\<close> stands for the call together with the \<open>[0]\<close> and the
  \<open>float(...)\<close> applied to its result.
\<close>

record 'f pipeline =
  is_loaded :: bool
  decision_engine :: engine
  preprocess_single_transaction :: "pydict \<Rightarrow> exn + 'f"
  predict_fraud_probability :: "'f \<Rightarrow> exn + pyfloat"

text \<open>
  A result is the dict of a completed detection or the dict of \<open>_create_error_response\<close>
  (whose \<open>error\<close> is the text of the exception, kept here as the exception). The
  \<open>processing_time\<close> of both is left out.
\<close>

datatype result =
    FinalResult (transaction_id: pyval) (fraud_detection: decision)
      (action_response: action_response)
  | ErrorResult (transaction_id: pyval) (error: exn) (action_response: action_response)

definition required_fields :: "string list" where
  "required_fields =
     [''sender_id'', ''receiver_id'', ''amount'', ''transaction_time'',
      ''device_id'', ''ip_address'']"

text \<open>The text of a list of field names, as \<open>f"{missing_fields}"\<close> prints it.\<close>

definition repr_fields :: "string list \<Rightarrow> string" where
  "repr_fields fs = ''['' @ join '', '' (map (\<lambda>f. [CHR 39] @ f @ [CHR 39]) fs) @ '']''"

definition validate_transaction_data :: "pydict \<Rightarrow> exn + unit" where
  "validate_transaction_data td =
     (let missing_fields = filter (\<lambda>field. map_of td field = None) required_fields
      in if missing_fields \<noteq> []
         then Inl (ValueError (''Missing required fields: '' @ repr_fields missing_fields))
         else
           bindE (subscript td ''amount'') (\<lambda>amount.
             if \<not> is_number amount then Inl (ValueError ''Amount must be a positive number'')
             else
               bindE (py_le amount (VInt 0)) (\<lambda>not_positive.
                 if not_positive then Inl (ValueError ''Amount must be a positive number'')
                 else
                   bindE (subscript td ''transaction_time'') (\<lambda>hour.
                   bindE (py_le (VInt 0) hour) (\<lambda>lo.
                   bindE (if lo then py_le hour (VInt 23) else Inr False) (\<lambda>in_range.
                     if \<not> in_range
                     then Inl (ValueError ''Transaction time must be between 0 and 23'')
                     else Inr ()))))))"

definition create_error_response :: "exn \<Rightarrow> pydict \<Rightarrow> result" where
  "create_error_response e td =
     ErrorResult (get td ''transaction_id'' (VStr ''unknown'')) e
       \<lparr>r_status = ''error'', r_action = ''BLOCK'',
        r_message = ''Unable to process transaction due to technical error'',
        r_user_message = ''Transaction could not be processed. Please try again later.'',
        r_next_steps = [''retry_later'', ''contact_support''],
        r_verification_methods = None,
        r_fraud_score = None,
        r_risk_level = None\<rparr>"

text \<open>The body of the \<open>try\<close> of \<open>predict_fraud\<close>, steps 1 to 6.\<close>

definition detection_steps :: "py_format \<Rightarrow> 'f pipeline \<Rightarrow> pydict \<Rightarrow> exn + result" where
  "detection_steps fmt p td =
     bindE (validate_transaction_data td) (\<lambda>u.
     bindE (preprocess_single_transaction p td) (\<lambda>X_processed.
     bindE (predict_fraud_probability p X_processed) (\<lambda>raw_score.
       let fraud_score = py_max2 (Fin 0) (py_min2 (Fin 1) raw_score)
       in bindE (make_decision fmt (decision_engine p) (VFloat fraud_score) (Some td))
            (\<lambda>decision_result.
              Inr (FinalResult (get td ''transaction_id'' (VStr ''unknown''))
                     decision_result (process_action decision_result))))))"

definition predict_fraud :: "py_format \<Rightarrow> 'f pipeline \<Rightarrow> pydict \<Rightarrow> exn + result" where
  "predict_fraud fmt p td =
     (if \<not> is_loaded p
      then Inl (RuntimeError ''Fraud detection pipeline not properly loaded'')
      else (case detection_steps fmt p td of
              Inl e \<Rightarrow> Inr (create_error_response e td)
            | Inr final_result \<Rightarrow> Inr final_result))"

text \<open>
  \<open>batch_predict\<close> writes into the objects of its caller: a missing \<open>transaction_id\<close>
  is stored in the item itself. The caller's objects therefore live in a store, a map
  from references to objects, and the list that \<open>batch_predict\<close> receives is a list of
  references: two positions of the list may hold the same object. An object is a dict
  or anything else the caller has put in the list.
\<close>

type_synonym ref = nat

type_synonym store = "ref \<Rightarrow> payload"

text \<open>
  \<open>predict_fraud\<close> on an object of the store; it returns the store as it leaves it. For
  an object that is not a dict the validation raises (the \<open>in\<close> test, or the subscript on
  a string), and the handler's \<open>_create_error_response\<close> calls \<open>.get\<close> on the object:
  the \<open>AttributeError\<close> of that call leaves \<open>predict_fraud\<close>.
\<close>

definition predict_fraud_on ::
  "py_format \<Rightarrow> 'f pipeline \<Rightarrow> store \<Rightarrow> ref \<Rightarrow> (exn + result) \<times> store" where
  "predict_fraud_on fmt p st r =
     (case st r of
        IsDict td \<Rightarrow> (predict_fraud fmt p td, st)
      | NotDict v \<Rightarrow>
          (if \<not> is_loaded p
           then Inl (RuntimeError ''Fraud detection pipeline not properly loaded'')
           else Inl AttributeError, st))"

text \<open>
  One turn of the loop of \<open>batch_predict\<close>, for the index \<open>i\<close> that \<open>enumerate\<close> gives
  and the object \<open>r\<close>. For a dict, a missing identifier is written into the object and
  the result of \<open>predict_fraud\<close> is the result of the turn (an exception of
  \<open>predict_fraud\<close> gives the error response). For an object that is not a dict the body
  of the \<open>try\<close> raises, and the handler calls \<open>_create_error_response\<close> with the
  object, whose \<open>.get\<close> raises \<open>AttributeError\<close> inside the handler: the turn ends with
  that exception.
\<close>

definition batch_item ::
  "py_format \<Rightarrow> 'f pipeline \<Rightarrow> nat \<Rightarrow> store \<Rightarrow> ref \<Rightarrow> (exn + result) \<times> store" where
  "batch_item fmt p i st r =
     (case st r of
        NotDict v \<Rightarrow> (Inl AttributeError, st)
      | IsDict td \<Rightarrow>
          (let td' = (if map_of td ''transaction_id'' = None
                      then AList.update ''transaction_id'' (VStr (''BATCH_'' @ pad4 (i + 1))) td
                      else td);
               st' = st(r := IsDict td')
           in (case predict_fraud_on fmt p st' r of
                 (Inl e, st'') \<Rightarrow> (Inr (create_error_response e td'), st'')
               | (Inr res, st'') \<Rightarrow> (Inr res, st''))))"

text \<open>
  The loop: an exception of a turn ends \<open>batch_predict\<close>, and the results collected so
  far are lost with it; the store stays as the turns have left it.
\<close>

fun batch_loop ::
  "py_format \<Rightarrow> 'f pipeline \<Rightarrow> nat \<Rightarrow> store \<Rightarrow> ref list \<Rightarrow> (exn + result list) \<times> store" where
  "batch_loop fmt p i st [] = (Inr [], st)"
| "batch_loop fmt p i st (r # rest) =
     (case batch_item fmt p i st r of
        (Inl e, st') \<Rightarrow> (Inl e, st')
      | (Inr res, st') \<Rightarrow>
          (case batch_loop fmt p (i + 1) st' rest of
             (Inl e, st'') \<Rightarrow> (Inl e, st'')
           | (Inr results, st'') \<Rightarrow> (Inr (res # results), st'')))"

definition batch_predict ::
  "py_format \<Rightarrow> 'f pipeline \<Rightarrow> store \<Rightarrow> ref list \<Rightarrow> (exn + result list) \<times> store" where
  "batch_predict fmt p st transactions_list = batch_loop fmt p 0 st transactions_list"


section \<open>Reference notions and sample data\<close>

text \<open>
  The notions the properties are stated with: the severity order of the actions, a test
  on results, and what it means for two values to differ.
\<close>

definition severity :: "string \<Rightarrow> nat" where
  "severity a = (if a = ''ALLOW'' then 0 else if a = ''VERIFY'' then 1 else 2)"

fun is_error_result :: "result \<Rightarrow> bool" where
  "is_error_result (ErrorResult t e a) = True"
| "is_error_result (FinalResult t d a) = False"

text \<open>The number of risk indicators that five boolean signals give.\<close>

definition tally_of :: "bool \<Rightarrow> bool \<Rightarrow> bool \<Rightarrow> bool \<Rightarrow> bool \<Rightarrow> nat" where
  "tally_of unusual device far often risky =
     of_bool unusual + of_bool device + of_bool far + of_bool often + of_bool risky"

text \<open>
  Sample data: a stand-in for the two conversions, which prints every number as
  \<open>#.####\<close> and \<open>#\<close>, and a loaded pipeline with the default engine whose
  preprocessor returns nothing of interest and whose model returns a fixed raw score.
\<close>

definition sample_format :: py_format where
  "sample_format = \<lparr>fixed4 = (\<lambda>v. ''#.####''), str_of = (\<lambda>v. ''#'')\<rparr>"

definition stub_pipeline :: "pyfloat \<Rightarrow> unit pipeline" where
  "stub_pipeline raw =
     \<lparr>is_loaded = True, decision_engine = init_engine None,
      preprocess_single_transaction = (\<lambda>td. Inr ()),
      predict_fraud_probability = (\<lambda>X. Inr raw)\<rparr>"

text \<open>
  \<open>create_sample_transaction\<close> of the pipeline module, with the three entries it reads
  from the clock as arguments.
\<close>

definition create_sample_transaction :: "string \<Rightarrow> int \<Rightarrow> string \<Rightarrow> pydict" where
  "create_sample_transaction txn_id hour stamp =
     [(''transaction_id'', VStr txn_id),
      (''sender_id'', VStr ''user_123@upi''),
      (''receiver_id'', VStr ''merchant_456@upi''),
      (''amount'', VFloat (Fin 2500)),
      (''transaction_time'', VInt hour),
      (''transaction_frequency_last_24h'', VInt 3),
      (''avg_amount_last_week'', VFloat (Fin 2000)),
      (''transaction_type'', VStr ''Send''),
      (''device_id'', VStr ''device_123''),
      (''os_version'', VStr ''Android_13''),
      (''ip_address'', VStr ''192.168.1.100''),
      (''current_latitude'', VFloat (Fin (286139 / 10000))),
      (''current_longitude'', VFloat (Fin (772090 / 10000))),
      (''geo_distance_from_last_txn'', VFloat (Fin (52 / 10))),
      (''receiver_age_days'', VInt 365),
      (''receiver_fraud_reports'', VInt 0),
      (''unique_senders_to_receiver'', VInt 150),
      (''time_between_upi_open_and_pay'', VFloat (Fin 25)),
      (''otp_entry_delay'', VFloat (Fin 12)),
      (''is_unusual_hour'', VInt 0),
      (''amount_deviation_from_avg'', VFloat (Fin (25 / 100))),
      (''timestamp'', VStr stamp)]"

definition sample_transaction :: pydict where
  "sample_transaction = create_sample_transaction ''TXN_20240101120000'' 12 ''2024-01-01 12:00:00''"

text \<open>The context of \<open>test_multiple_risk_indicators\<close>: four indicators, no device entry.\<close>

definition risky_context :: pydict where
  "risky_context =
     [(''amount'', VInt 5000),
      (''avg_amount_last_week'', VInt 2000),
      (''is_unusual_hour'', VInt 1),
      (''geo_distance_from_last_txn'', VInt 150),
      (''transaction_frequency_last_24h'', VInt 12),
      (''receiver_fraud_reports'', VInt 5),
      (''receiver_age_days'', VInt 30)]"

text \<open>The VIP scenario of the demo script: the sample transaction with eight entries changed.\<close>

definition vip_transaction :: pydict where
  "vip_transaction =
     dict_update sample_transaction
       [(''transaction_id'', VStr ''DEMO_VIP_001''),
        (''amount'', VFloat (Fin 25000)),
        (''transaction_time'', VInt 1),
        (''receiver_age_days'', VInt 5),
        (''receiver_fraud_reports'', VInt 3),
        (''user_type'', VStr ''vip''),
        (''geo_distance_from_last_txn'', VFloat (Fin 100)),
        (''is_unusual_hour'', VInt 1)]"

text \<open>
  Two values differ, case by case: \<open>None\<close> equals only \<open>None\<close>, a string only the same
  string, a number every number of the same value (\<open>True\<close> is 1, and 1 is 1.0), and NaN
  nothing at all. An absent key counts as \<open>None\<close>.
\<close>

fun values_differ :: "pyval \<Rightarrow> pyval \<Rightarrow> bool" where
  "values_differ VNone VNone = False"
| "values_differ (VStr s) (VStr t) = (s \<noteq> t)"
| "values_differ VNone y = True"
| "values_differ x VNone = True"
| "values_differ (VStr s) y = True"
| "values_differ x (VStr t) = True"
| "values_differ x y = (num_of x = Some NaN \<or> num_of y = Some NaN \<or> num_of x \<noteq> num_of y)"

definition absent_as_none :: "pyval option \<Rightarrow> pyval" where
  "absent_as_none x = (case x of None \<Rightarrow> VNone | Some v \<Rightarrow> v)"

text \<open>The sample transaction on the user's preferred device, and on another one.\<close>

definition known_device_transaction :: pydict where
  "known_device_transaction =
     AList.update ''preferred_device'' (VStr ''device_123'') sample_transaction"

definition other_device_transaction :: pydict where
  "other_device_transaction =
     AList.update ''preferred_device'' (VStr ''device_999'') sample_transaction"

text \<open>
  Collaborators that raise, a transaction whose distance is a string, and the sample
  transaction without its \<open>transaction_id\<close>.
\<close>

definition model_not_loaded :: "unit \<Rightarrow> exn + pyfloat" where
  "model_not_loaded X = Inl (ValueError ''Model not trained or loaded!'')"

definition preprocessor_failure :: "pydict \<Rightarrow> exn + unit" where
  "preprocessor_failure td = Inl (External ''KeyError'')"

definition garbled_transaction :: pydict where
  "garbled_transaction =
     AList.update ''geo_distance_from_last_txn'' (VStr ''far'') sample_transaction"

definition anonymous_transaction :: pydict where
  "anonymous_transaction = AList.delete ''transaction_id'' sample_transaction"

text \<open>
  A store of four objects: the sample transaction without identifier, a malformed
  transaction, the sample transaction, and the number 5.
\<close>

definition sample_store :: store where
  "sample_store =
     (\<lambda>r. NotDict VNone)
       (0 := IsDict anonymous_transaction, 1 := IsDict risky_context,
        2 := IsDict sample_transaction, 3 := NotDict (VInt 5))"

section \<open>Basic facts\<close>

lemma bindE_simps [simp]:
  "bindE (Inl e) f = Inl e" "bindE (Inr x) f = f x"
  by (simp_all add: bindE_def)

lemma py_lt_num:
  "num_of a = Some x \<Longrightarrow> num_of b = Some y \<Longrightarrow> py_lt a b = Inr (flt_lt x y)"
  by (simp add: py_lt_def)

lemma py_le_num:
  "num_of a = Some x \<Longrightarrow> num_of b = Some y \<Longrightarrow> py_le a b = Inr (flt_le x y)"
  by (simp add: py_le_def)

lemma py_sub_num:
  "num_of a = Some x \<Longrightarrow> num_of b = Some y \<Longrightarrow> py_sub a b = Inr (flt_sub x y)"
  by (simp add: py_sub_def)

section \<open>Risk bands and base action\<close>

lemma base_action_default:
  assumes "num_of score = Some (Fin s)"
  shows "get_base_action (init_engine None) score =
     Inr (if s < 4 / 10 then ''ALLOW'' else if s < 7 / 10 then ''VERIFY'' else ''BLOCK'')"
  using assms
  by (simp add: get_base_action_def init_engine_def FRAUD_THRESHOLDS_def subscript_def
      py_lt_num [where b = "VFloat (Fin q)" for q])

lemma risk_level_default:
  assumes "num_of score = Some (Fin s)" "0 \<le> s"
  shows "get_risk_level (init_engine None) score =
     Inr (if s < 4 / 10 then ''LOW'' else if s < 7 / 10 then ''MEDIUM'' else ''HIGH'')"
  using assms
  by (simp add: get_risk_level_def init_engine_def RISK_LEVELS_def
      py_lt_num [where b = "VFloat (Fin q)" for q] py_le_num [where a = "VFloat (Fin q)" for q])

lemma confidence_default_ok:
  assumes "num_of score = Some (Fin s)"
  shows "\<exists>c. calculate_confidence (init_engine None) score = Inr c"
  using assms
  by (simp add: calculate_confidence_def init_engine_def FRAUD_THRESHOLDS_def subscript_def
      py_sub_num [where b = "VFloat (Fin q)" for q] Let_def)

lemma make_decision_no_context:
  assumes "num_of score = Some (Fin s)" "0 \<le> s" "s \<le> 1"
    and "get_base_action eng score = Inr a" "get_risk_level eng score = Inr l"
    and "calculate_confidence eng score = Inr c"
  shows "\<exists>d. make_decision fmt eng score None = Inr d \<and> d_risk_level d = l \<and>
              d_action d = a \<and> d_confidence d = c"
  using assms
  by (simp add: make_decision_def apply_business_rules_def)

text \<open>
  Claim C1. Against the default configuration (allow = 0.4, block = 0.7) a score in
  [0, 0.4) gets risk level LOW and base action ALLOW, a score in [0.4, 0.7) gets MEDIUM
  and VERIFY, and a score in [0.7, 1.0] gets HIGH and BLOCK; the score 1.0, which no
  band contains, falls back to HIGH. The base action is the action before the business
  rules: it is the action of the decision that \<open>make_decision\<close> returns when it is given
  no context.
\<close>

theorem risk_bands_default:
  assumes "num_of score = Some (Fin s)"
  shows "(0 \<le> s \<and> s < 4 / 10 \<longrightarrow>
            get_risk_level (init_engine None) score = Inr ''LOW'' \<and>
            get_base_action (init_engine None) score = Inr ''ALLOW'' \<and>
            (\<exists>d. make_decision fmt (init_engine None) score None = Inr d \<and>
                 d_risk_level d = ''LOW'' \<and> d_action d = ''ALLOW''))
       \<and> (4 / 10 \<le> s \<and> s < 7 / 10 \<longrightarrow>
            get_risk_level (init_engine None) score = Inr ''MEDIUM'' \<and>
            get_base_action (init_engine None) score = Inr ''VERIFY'' \<and>
            (\<exists>d. make_decision fmt (init_engine None) score None = Inr d \<and>
                 d_risk_level d = ''MEDIUM'' \<and> d_action d = ''VERIFY''))
       \<and> (7 / 10 \<le> s \<and> s \<le> 1 \<longrightarrow>
            get_risk_level (init_engine None) score = Inr ''HIGH'' \<and>
            get_base_action (init_engine None) score = Inr ''BLOCK'' \<and>
            (\<exists>d. make_decision fmt (init_engine None) score None = Inr d \<and>
                 d_risk_level d = ''HIGH'' \<and> d_action d = ''BLOCK''))"
proof -
  obtain c where c: "calculate_confidence (init_engine None) score = Inr c"
    using confidence_default_ok [OF assms] by blast
  have low: "get_risk_level (init_engine None) score = Inr ''LOW'' \<and>
            get_base_action (init_engine None) score = Inr ''ALLOW'' \<and>
            (\<exists>d. make_decision fmt (init_engine None) score None = Inr d \<and>
                 d_risk_level d = ''LOW'' \<and> d_action d = ''ALLOW'')"
    if "0 \<le> s" "s < 4 / 10"
  proof -
    have b: "get_base_action (init_engine None) score = Inr ''ALLOW''"
      using that by (simp add: base_action_default [OF assms])
    have r: "get_risk_level (init_engine None) score = Inr ''LOW''"
      using that by (simp add: risk_level_default [OF assms])
    from that have "s \<le> 1" by simp
    from make_decision_no_context [OF assms that(1) this b r c, of fmt] b r
    show ?thesis by blast
  qed
  have medium: "get_risk_level (init_engine None) score = Inr ''MEDIUM'' \<and>
            get_base_action (init_engine None) score = Inr ''VERIFY'' \<and>
            (\<exists>d. make_decision fmt (init_engine None) score None = Inr d \<and>
                 d_risk_level d = ''MEDIUM'' \<and> d_action d = ''VERIFY'')"
    if "4 / 10 \<le> s" "s < 7 / 10"
  proof -
    from that have s0: "0 \<le> s" and s1: "s \<le> 1" by simp_all
    have b: "get_base_action (init_engine None) score = Inr ''VERIFY''"
      using that by (simp add: base_action_default [OF assms])
    have r: "get_risk_level (init_engine None) score = Inr ''MEDIUM''"
      using that s0 by (simp add: risk_level_default [OF assms])
    from make_decision_no_context [OF assms s0 s1 b r c, of fmt] b r
    show ?thesis by blast
  qed
  have high: "get_risk_level (init_engine None) score = Inr ''HIGH'' \<and>
            get_base_action (init_engine None) score = Inr ''BLOCK'' \<and>
            (\<exists>d. make_decision fmt (init_engine None) score None = Inr d \<and>
                 d_risk_level d = ''HIGH'' \<and> d_action d = ''BLOCK'')"
    if "7 / 10 \<le> s" "s \<le> 1"
  proof -
    from that have s0: "0 \<le> s" by simp
    have b: "get_base_action (init_engine None) score = Inr ''BLOCK''"
      using that by (simp add: base_action_default [OF assms])
    have r: "get_risk_level (init_engine None) score = Inr ''HIGH''"
      using that s0 by (simp add: risk_level_default [OF assms])
    from make_decision_no_context [OF assms s0 that(2) b r c, of fmt] b r
    show ?thesis by blast
  qed
  from low medium high show ?thesis by blast
qed

theorem risk_bands_default_witness:
  "get_risk_level (init_engine None) (VFloat (Fin (2 / 10))) = Inr ''LOW'' \<and>
   get_base_action (init_engine None) (VFloat (Fin (2 / 10))) = Inr ''ALLOW'' \<and>
   get_risk_level (init_engine None) (VFloat (Fin (5 / 10))) = Inr ''MEDIUM'' \<and>
   get_base_action (init_engine None) (VFloat (Fin (5 / 10))) = Inr ''VERIFY'' \<and>
   get_risk_level (init_engine None) (VFloat (Fin 1)) = Inr ''HIGH'' \<and>
   get_base_action (init_engine None) (VInt 1) = Inr ''BLOCK'' \<and>
   d_action (projr (make_decision sample_format (init_engine None)
     (VFloat (Fin (75 / 100))) None)) = ''BLOCK''"
  using risk_bands_default [of "VFloat (Fin (2 / 10))" "2 / 10" sample_format]
    risk_bands_default [of "VFloat (Fin (5 / 10))" "5 / 10" sample_format]
    risk_bands_default [of "VFloat (Fin 1)" 1 sample_format]
    risk_bands_default [of "VInt 1" 1 sample_format]
    risk_bands_default [of "VFloat (Fin (75 / 100))" "75 / 100" sample_format]
  by auto

section \<open>The business rules\<close>

lemma bindE_eq_Inr: "bindE m f = Inr y \<longleftrightarrow> (\<exists>x. m = Inr x \<and> f x = Inr y)"
  by (cases m) simp_all

lemma high_amount_rule_cases:
  assumes "high_amount_rule td st = Inr st'"
  shows "st' = st \<or> (fst st = ''ALLOW'' \<and>
           st' = (''VERIFY'', snd st @ [''High amount transaction (>5x average)'']))"
  using assms
  by (auto simp: high_amount_rule_def Let_def bindE_eq_Inr split: if_splits)

lemma new_receiver_rule_cases:
  assumes "new_receiver_rule td st = Inr st'"
  shows "st' = st \<or> (fst st = ''ALLOW'' \<and>
           st' = (''VERIFY'', snd st @ [''New receiver (<7 days) with high amount'']))"
  using assms
  by (auto simp: new_receiver_rule_def Let_def bindE_eq_Inr split: if_splits)

lemma micro_night_rule_cases:
  assumes "micro_night_rule td st = Inr st'"
  shows "st' = st \<or> (fst st = ''ALLOW'' \<and>
           st' = (''VERIFY'', snd st @ [''Micro transaction during night hours'']))"
  using assms
  by (auto simp: micro_night_rule_def Let_def bindE_eq_Inr split: if_splits)

lemma escalate_cases:
  "escalate n st = st \<or>
   (fst st = ''ALLOW'' \<and> 3 \<le> n \<and> escalate n st =
      (''VERIFY'', snd st @ [''Multiple risk indicators ('' @ show_nat n @ '')''])) \<or>
   (fst st = ''VERIFY'' \<and> 4 \<le> n \<and> escalate n st =
      (''BLOCK'', snd st @ [''Too many risk indicators ('' @ show_nat n @ '')'']))"
  by (simp add: escalate_def)

lemma vip_rule_cases:
  "vip_rule td st = st \<or>
   (fst st = ''BLOCK'' \<and> py_eq (get td ''user_type'' (VStr ''regular'')) (VStr ''vip'') \<and>
    vip_rule td st = (''VERIFY'', snd st @ [''VIP user - downgraded to verification'']))"
  by (simp add: vip_rule_def)

lemma severity_simps [simp]:
  "severity ''ALLOW'' = 0" "severity ''VERIFY'' = 1" "severity ''BLOCK'' = 2"
  by (simp_all add: severity_def)

lemma indicator_rule_severity:
  assumes "indicator_rule td st = Inr st'"
  shows "severity (fst st) \<le> severity (fst st')"
proof -
  from assms obtain t where "st' = escalate (fst t) (fst st, snd t)"
    by (auto simp: indicator_rule_def bindE_eq_Inr)
  with escalate_cases [of "fst t" "(fst st, snd t)"] show ?thesis
    by auto
qed

lemma vip_rule_not_block:
  assumes "map_of td ''user_type'' = Some (VStr ''vip'')"
  shows "fst (vip_rule td st) \<noteq> ''BLOCK''"
  using assms by (simp add: vip_rule_def get_def py_eq_def)

lemma business_rules_vip:
  assumes "map_of td ''user_type'' = Some (VStr ''vip'')"
    and "business_rules_body fmt base score td = Inr st"
  shows "fst st \<noteq> ''BLOCK''"
proof -
  from assms(2) obtain s3 s5 where m: "micro_night_rule td (vip_rule td s3) = Inr s5"
    and st: "st = (fst s5, snd s5 @ [''Final action: '' @ fst s5])"
    by (auto simp: business_rules_body_def bindE_eq_Inr)
  from micro_night_rule_cases [OF m] vip_rule_not_block [OF assms(1), of s3]
  have "fst s5 \<noteq> ''BLOCK''" by auto
  with st show ?thesis by simp
qed

lemma count_indicators_value:
  assumes "py_gt (get td ''geo_distance_from_last_txn'' (VInt 0)) (VInt 100) = Inr far"
    and "py_gt (get td ''transaction_frequency_last_24h'' (VInt 0)) (VInt 10) = Inr often"
    and "py_gt (get td ''receiver_fraud_reports'' (VInt 0)) (VInt 3) = Inr risky"
  shows "\<exists>rs. count_indicators td reasoning =
           Inr (tally_of (py_eq (get td ''is_unusual_hour'' (VInt 0)) (VInt 1))
                  (py_ne (get td ''device_id'' VNone) (get td ''preferred_device'' VNone))
                  far often risky, rs)"
  using assms
  by (simp add: count_indicators_def location_check_def frequency_check_def
      receiver_check_def device_check_def unusual_hour_check_def tally_of_def)


text \<open>
  Claim C3, as the code has it. The tally rule counts the five signals (unusual hour,
  device mismatch, distance over 100, frequency over 10, fraud reports over 3). Its two
  escalations are the branches of one \<open>if\<close>/\<open>elif\<close>: with a count of 3 or more an action
  ALLOW becomes VERIFY, otherwise with a count of 4 or more an action VERIFY becomes
  BLOCK, and in every other case the action is unchanged. So an action ALLOW with four
  or more indicators leaves the rule as VERIFY, and only an action that enters the rule
  as VERIFY can leave it as BLOCK.
\<close>

theorem indicator_rule_escalation:
  assumes "py_gt (get td ''geo_distance_from_last_txn'' (VInt 0)) (VInt 100) = Inr far"
    and "py_gt (get td ''transaction_frequency_last_24h'' (VInt 0)) (VInt 10) = Inr often"
    and "py_gt (get td ''receiver_fraud_reports'' (VInt 0)) (VInt 3) = Inr risky"
    and "n = tally_of (py_eq (get td ''is_unusual_hour'' (VInt 0)) (VInt 1))
               (py_ne (get td ''device_id'' VNone) (get td ''preferred_device'' VNone))
               far often risky"
  shows "(\<exists>rs. count_indicators td reasoning = Inr (n, rs)) \<and>
         (\<exists>rs. indicator_rule td (a, reasoning) =
            Inr (if 3 \<le> n \<and> a = ''ALLOW'' then ''VERIFY''
                 else if 4 \<le> n \<and> a = ''VERIFY'' then ''BLOCK'' else a, rs))"
proof -
  from count_indicators_value [OF assms(1-3), of reasoning] assms(4)
  obtain rs where c: "count_indicators td reasoning = Inr (n, rs)" by blast
  then show ?thesis
    by (simp add: indicator_rule_def escalate_def)
qed

theorem indicator_rule_escalation_witness:
  "indicator_rule risky_context (''VERIFY'', []) =
     Inr (''BLOCK'', [''Unusual transaction hour'', ''Distant location'',
       ''High transaction frequency'', ''High-risk receiver'',
       ''Too many risk indicators (4)''])"
  using indicator_rule_escalation [of risky_context True True True 4 "[]" "''VERIFY''"]
  by (simp add: risky_context_def get_def py_gt_def py_lt_def py_eq_def py_ne_def flt_eq_def
      tally_of_def indicator_rule_def count_indicators_def location_check_def frequency_check_def
      receiver_check_def device_check_def unusual_hour_check_def escalate_def)


text \<open>
  The claim as stated fails: the context of \<open>test_multiple_risk_indicators\<close> has four
  indicators, enters the rule with ALLOW and leaves it with VERIFY, not BLOCK.
\<close>

theorem allow_with_four_indicators_counterexample:
  "count_indicators risky_context [] =
     Inr (4, [''Unusual transaction hour'', ''Distant location'',
       ''High transaction frequency'', ''High-risk receiver'']) \<and>
   indicator_rule risky_context (''ALLOW'', []) =
     Inr (''VERIFY'', [''Unusual transaction hour'', ''Distant location'',
       ''High transaction frequency'', ''High-risk receiver'',
       ''Multiple risk indicators (4)''])"
  by (simp add: risky_context_def get_def py_gt_def py_lt_def py_eq_def py_ne_def flt_eq_def
      indicator_rule_def count_indicators_def location_check_def frequency_check_def
      receiver_check_def device_check_def unusual_hour_check_def escalate_def)


text \<open>
  Claim C5. With a context whose \<open>user_type\<close> is \<open>"vip"\<close>, the VIP rule turns BLOCK into
  VERIFY; no other rule lowers the severity of the action (ALLOW < VERIFY < BLOCK); the
  rule that follows, the micro-night rule, never produces BLOCK from another action; and
  whenever \<open>make_decision\<close> returns a decision for such a context, its action is not BLOCK.
\<close>

theorem vip_never_blocked:
  assumes "map_of td ''user_type'' = Some (VStr ''vip'')"
  shows "vip_rule td (''BLOCK'', rs) = (''VERIFY'', rs @ [''VIP user - downgraded to verification''])
    \<and> (high_amount_rule td' st = Inr st' \<longrightarrow> severity (fst st) \<le> severity (fst st'))
    \<and> (new_receiver_rule td' st = Inr st' \<longrightarrow> severity (fst st) \<le> severity (fst st'))
    \<and> (indicator_rule td' st = Inr st' \<longrightarrow> severity (fst st) \<le> severity (fst st'))
    \<and> (micro_night_rule td' st = Inr st' \<longrightarrow> severity (fst st) \<le> severity (fst st'))
    \<and> (micro_night_rule td' st = Inr st' \<longrightarrow> fst st \<noteq> ''BLOCK'' \<longrightarrow> fst st' \<noteq> ''BLOCK'')
    \<and> (make_decision fmt eng score (Some td) = Inr d \<longrightarrow> d_action d \<noteq> ''BLOCK'')"
proof -
  have 1: "vip_rule td (''BLOCK'', rs) = (''VERIFY'', rs @ [''VIP user - downgraded to verification''])"
    using assms by (simp add: vip_rule_def get_def py_eq_def)
  have 2: "severity (fst st) \<le> severity (fst st')" if "high_amount_rule td' st = Inr st'"
    using high_amount_rule_cases [OF that] by auto
  have 3: "severity (fst st) \<le> severity (fst st')" if "new_receiver_rule td' st = Inr st'"
    using new_receiver_rule_cases [OF that] by auto
  have 4: "severity (fst st) \<le> severity (fst st')" if "indicator_rule td' st = Inr st'"
    using indicator_rule_severity [OF that] .
  have 5: "severity (fst st) \<le> severity (fst st')" if "micro_night_rule td' st = Inr st'"
    using micro_night_rule_cases [OF that] by auto
  have 6: "fst st' \<noteq> ''BLOCK''" if "micro_night_rule td' st = Inr st'" "fst st \<noteq> ''BLOCK''"
    using micro_night_rule_cases [OF that(1)] that(2) by auto
  have 7: "d_action d \<noteq> ''BLOCK''" if "make_decision fmt eng score (Some td) = Inr d"
  proof -
    from that obtain base r where r: "apply_business_rules fmt base score (Some td) = Inr r"
      and d: "d_action d = fst r"
      by (auto simp: make_decision_def bindE_eq_Inr split: option.splits if_splits)
    from r obtain st where "business_rules_body fmt base score td = Inr st" "fst r = fst st"
      by (auto simp: apply_business_rules_def bindE_eq_Inr)
    with business_rules_vip [OF assms] d show ?thesis by metis
  qed
  from 1 2 3 4 5 6 7 show ?thesis by blast
qed

lemma vip_transaction_rules:
  "business_rules_body sample_format ''BLOCK'' (VFloat (Fin (9 / 10))) vip_transaction =
     Inr (''VERIFY'', [''Fraud score: #.####'', ''Unusual transaction hour'',
       ''New/different device'', ''VIP user - downgraded to verification'',
       ''Final action: VERIFY''])"
  by (simp add: business_rules_body_def sample_format_def
        vip_transaction_def sample_transaction_def create_sample_transaction_def
        dict_update_def high_amount_rule_def new_receiver_rule_def indicator_rule_def
        count_indicators_def location_check_def frequency_check_def
        receiver_check_def device_check_def unusual_hour_check_def escalate_def
        vip_rule_def micro_night_rule_def get_def py_gt_def py_lt_def py_le_def py_ge_def
        py_eq_def py_ne_def flt_eq_def Let_def)

theorem vip_never_blocked_witness:
  "map_of vip_transaction ''user_type'' = Some (VStr ''vip'') \<and>
   get_base_action (init_engine None) (VFloat (Fin (9 / 10))) = Inr ''BLOCK'' \<and>
   d_action (projr (make_decision sample_format (init_engine None) (VFloat (Fin (9 / 10)))
       (Some vip_transaction))) = ''VERIFY''"
proof -
  have u: "map_of vip_transaction ''user_type'' = Some (VStr ''vip'')"
    by (simp add: vip_transaction_def sample_transaction_def create_sample_transaction_def
        dict_update_def)
  have b: "get_base_action (init_engine None) (VFloat (Fin (9 / 10))) = Inr ''BLOCK''"
    by (simp add: base_action_default [of _ "9 / 10"])
  have r: "get_risk_level (init_engine None) (VFloat (Fin (9 / 10))) = Inr ''HIGH''"
    by (simp add: risk_level_default [of _ "9 / 10"])
  obtain c where c: "calculate_confidence (init_engine None) (VFloat (Fin (9 / 10))) = Inr c"
    using confidence_default_ok [of "VFloat (Fin (9 / 10))" "9 / 10"] by auto
  have v: "d_action (projr (make_decision sample_format (init_engine None) (VFloat (Fin (9 / 10)))
       (Some vip_transaction))) = ''VERIFY''"
    by (simp add: make_decision_def b r c apply_business_rules_def vip_transaction_rules)
  from vip_never_blocked [OF u, of "[]" "[]" "(''ALLOW'', [])" "(''ALLOW'', [])" sample_format
      "init_engine None" "VFloat (Fin (9 / 10))"] u b v
  show ?thesis by simp
qed



subsection \<open>The device check\<close>

lemma py_ne_values_differ: "py_ne x y = values_differ x y"
  by (cases x; cases y) (auto simp: py_ne_def py_eq_def flt_eq_def)

lemma get_absent_as_none: "get td k VNone = absent_as_none (map_of td k)"
  by (simp add: get_def absent_as_none_def)

lemma device_check_value:
  "device_check td (n, rs) =
     (if values_differ (absent_as_none (map_of td ''device_id''))
           (absent_as_none (map_of td ''preferred_device''))
      then (n + 1, rs @ [''New/different device'']) else (n, rs))"
  by (simp add: device_check_def py_ne_values_differ get_absent_as_none)

lemma count_indicators_device_reason:
  assumes "count_indicators td reasoning = Inr t"
  shows "''New/different device'' \<in> set (snd t) \<longleftrightarrow>
         values_differ (absent_as_none (map_of td ''device_id''))
           (absent_as_none (map_of td ''preferred_device'')) \<or>
         ''New/different device'' \<in> set reasoning"
  using assms
  by (auto simp: count_indicators_def location_check_def frequency_check_def
      receiver_check_def device_check_value unusual_hour_check_def
      bindE_eq_Inr split: if_splits)

lemma indicator_rule_device_reason:
  assumes "indicator_rule td st = Inr st'"
  shows "''New/different device'' \<in> set (snd st') \<longleftrightarrow>
         values_differ (absent_as_none (map_of td ''device_id''))
           (absent_as_none (map_of td ''preferred_device'')) \<or>
         ''New/different device'' \<in> set (snd st)"
proof -
  from assms obtain t where t: "count_indicators td (snd st) = Inr t"
    and st': "st' = escalate (fst t) (fst st, snd t)"
    by (auto simp: indicator_rule_def bindE_eq_Inr)
  from escalate_cases [of "fst t" "(fst st, snd t)"] st'
  have "''New/different device'' \<in> set (snd st') \<longleftrightarrow> ''New/different device'' \<in> set (snd t)"
    by auto
  with count_indicators_device_reason [OF t] show ?thesis by simp
qed

lemma business_rules_device_reason:
  assumes "business_rules_body fmt base score td = Inr st"
  shows "''New/different device'' \<in> set (snd st) \<longleftrightarrow>
         values_differ (absent_as_none (map_of td ''device_id''))
           (absent_as_none (map_of td ''preferred_device''))"
proof -
  from assms obtain s1 s2 s3 s5 where
    1: "high_amount_rule td (base, [''Fraud score: '' @ fixed4 fmt score]) = Inr s1"
    and 2: "new_receiver_rule td s1 = Inr s2"
    and 3: "indicator_rule td s2 = Inr s3"
    and 5: "micro_night_rule td (vip_rule td s3) = Inr s5"
    and st: "st = (fst s5, snd s5 @ [''Final action: '' @ fst s5])"
    by (auto simp: business_rules_body_def bindE_eq_Inr)
  from high_amount_rule_cases [OF 1]
  have a: "''New/different device'' \<notin> set (snd s1)" by auto
  from new_receiver_rule_cases [OF 2] a
  have b: "''New/different device'' \<notin> set (snd s2)" by auto
  from indicator_rule_device_reason [OF 3] b
  have c: "''New/different device'' \<in> set (snd s3) \<longleftrightarrow>
      values_differ (absent_as_none (map_of td ''device_id''))
           (absent_as_none (map_of td ''preferred_device''))" by simp
  from vip_rule_cases [of td s3]
  have d: "''New/different device'' \<in> set (snd (vip_rule td s3)) \<longleftrightarrow>
           ''New/different device'' \<in> set (snd s3)" by auto
  from micro_night_rule_cases [OF 5]
  have e: "''New/different device'' \<in> set (snd s5) \<longleftrightarrow>
           ''New/different device'' \<in> set (snd (vip_rule td s3))" by auto
  from c d e st show ?thesis by simp
qed

lemma device_samples_compare:
  "py_gt (get known_device_transaction ''geo_distance_from_last_txn'' (VInt 0)) (VInt 100) = Inr False"
  "py_gt (get known_device_transaction ''transaction_frequency_last_24h'' (VInt 0)) (VInt 10) = Inr False"
  "py_gt (get known_device_transaction ''receiver_fraud_reports'' (VInt 0)) (VInt 3) = Inr False"
  "py_gt (get other_device_transaction ''geo_distance_from_last_txn'' (VInt 0)) (VInt 100) = Inr False"
  "py_gt (get other_device_transaction ''transaction_frequency_last_24h'' (VInt 0)) (VInt 10) = Inr False"
  "py_gt (get other_device_transaction ''receiver_fraud_reports'' (VInt 0)) (VInt 3) = Inr False"
  "py_gt (get sample_transaction ''geo_distance_from_last_txn'' (VInt 0)) (VInt 100) = Inr False"
  "py_gt (get sample_transaction ''transaction_frequency_last_24h'' (VInt 0)) (VInt 10) = Inr False"
  "py_gt (get sample_transaction ''receiver_fraud_reports'' (VInt 0)) (VInt 3) = Inr False"
  "py_gt (get risky_context ''geo_distance_from_last_txn'' (VInt 0)) (VInt 100) = Inr True"
  "py_gt (get risky_context ''transaction_frequency_last_24h'' (VInt 0)) (VInt 10) = Inr True"
  "py_gt (get risky_context ''receiver_fraud_reports'' (VInt 0)) (VInt 3) = Inr True"
  by (simp_all add: known_device_transaction_def other_device_transaction_def
      sample_transaction_def create_sample_transaction_def risky_context_def get_def
      py_gt_def py_lt_def)

lemma device_samples_entries:
  "map_of known_device_transaction ''device_id'' = Some (VStr ''device_123'')"
  "map_of known_device_transaction ''preferred_device'' = Some (VStr ''device_123'')"
  "map_of other_device_transaction ''device_id'' = Some (VStr ''device_123'')"
  "map_of other_device_transaction ''preferred_device'' = Some (VStr ''device_999'')"
  "map_of sample_transaction ''device_id'' = Some (VStr ''device_123'')"
  "map_of sample_transaction ''preferred_device'' = None"
  "map_of risky_context ''device_id'' = None"
  "map_of risky_context ''preferred_device'' = None"
  by (simp_all add: known_device_transaction_def other_device_transaction_def
      sample_transaction_def create_sample_transaction_def risky_context_def)

text \<open>
  Claim C10. The device check adds one to the tally and appends the reason
  \<open>New/different device\<close> exactly when the \<open>device_id\<close> value differs from the
  \<open>preferred_device\<close> value, an absent key being read as \<open>None\<close>: the tally is the number
  of true signals, this one included, and the reason is in the reasoning of the rules
  exactly when the values differ. With both keys present and strings, the check counts
  exactly when the two strings are not the same. A context that gives a device id (a
  value other than \<open>None\<close>) and has no \<open>preferred_device\<close> key always counts; a context
  with neither key never does.
\<close>

theorem device_mismatch_indicator:
  assumes "py_gt (get td ''geo_distance_from_last_txn'' (VInt 0)) (VInt 100) = Inr far"
    and "py_gt (get td ''transaction_frequency_last_24h'' (VInt 0)) (VInt 10) = Inr often"
    and "py_gt (get td ''receiver_fraud_reports'' (VInt 0)) (VInt 3) = Inr risky"
  shows "device_check td (n, rs) =
           (if values_differ (absent_as_none (map_of td ''device_id''))
                 (absent_as_none (map_of td ''preferred_device''))
            then (n + 1, rs @ [''New/different device'']) else (n, rs))
    \<and> (\<exists>rs'. count_indicators td rs =
           Inr (tally_of (py_eq (get td ''is_unusual_hour'' (VInt 0)) (VInt 1))
                  (values_differ (absent_as_none (map_of td ''device_id''))
                     (absent_as_none (map_of td ''preferred_device'')))
                  far often risky, rs'))
    \<and> (business_rules_body fmt base score td = Inr st \<longrightarrow>
          (''New/different device'' \<in> set (snd st) \<longleftrightarrow>
           values_differ (absent_as_none (map_of td ''device_id''))
             (absent_as_none (map_of td ''preferred_device''))))
    \<and> (map_of td ''device_id'' = Some (VStr a) \<and>
        map_of td ''preferred_device'' = Some (VStr b) \<longrightarrow>
          device_check td (n, rs) =
            (if a = b then (n, rs) else (n + 1, rs @ [''New/different device''])))
    \<and> (map_of td ''device_id'' = Some v \<and> v \<noteq> VNone \<and>
        map_of td ''preferred_device'' = None \<longrightarrow>
          device_check td (n, rs) = (n + 1, rs @ [''New/different device'']))
    \<and> (map_of td ''device_id'' = None \<and> map_of td ''preferred_device'' = None \<longrightarrow>
          device_check td (n, rs) = (n, rs))"
proof -
  note 1 = device_check_value [of td n rs]
  have 2: "\<exists>rs'. count_indicators td rs =
           Inr (tally_of (py_eq (get td ''is_unusual_hour'' (VInt 0)) (VInt 1))
                  (values_differ (absent_as_none (map_of td ''device_id''))
                     (absent_as_none (map_of td ''preferred_device'')))
                  far often risky, rs')"
    using count_indicators_value [OF assms, of rs]
    by (simp add: py_ne_values_differ get_absent_as_none)
  have 3: "''New/different device'' \<in> set (snd st) \<longleftrightarrow>
           values_differ (absent_as_none (map_of td ''device_id''))
             (absent_as_none (map_of td ''preferred_device''))"
    if "business_rules_body fmt base score td = Inr st"
    using business_rules_device_reason [OF that] .
  have 4: "device_check td (n, rs) =
            (if a = b then (n, rs) else (n + 1, rs @ [''New/different device'']))"
    if "map_of td ''device_id'' = Some (VStr a)" "map_of td ''preferred_device'' = Some (VStr b)"
    using that by (simp add: 1 absent_as_none_def)
  have 5: "device_check td (n, rs) = (n + 1, rs @ [''New/different device''])"
    if "map_of td ''device_id'' = Some v" "v \<noteq> VNone" "map_of td ''preferred_device'' = None"
    using that by (cases v) (simp_all add: 1 absent_as_none_def)
  have 6: "device_check td (n, rs) = (n, rs)"
    if "map_of td ''device_id'' = None" "map_of td ''preferred_device'' = None"
    using that by (simp add: 1 absent_as_none_def)
  from 1 2 3 4 5 6 show ?thesis by blast
qed


theorem device_mismatch_indicator_witness:
  "device_check known_device_transaction (0, []) = (0, []) \<and>
   device_check other_device_transaction (0, []) = (1, [''New/different device'']) \<and>
   device_check sample_transaction (0, []) = (1, [''New/different device'']) \<and>
   device_check risky_context (0, []) = (0, []) \<and>
   ''New/different device'' \<in> set (snd (projr
      (business_rules_body sample_format ''BLOCK'' (VFloat (Fin (9 / 10))) vip_transaction)))"
proof -
  note e = device_samples_entries
  note c = device_samples_compare
  from device_mismatch_indicator [OF c(1) c(2) c(3), of 0 "[]" sample_format "''BLOCK''"
      "VFloat (Fin (9 / 10))" "(''VERIFY'', [])" "''device_123''" "''device_123''" VNone] e
  have 1: "device_check known_device_transaction (0, []) = (0, [])" by (simp add: absent_as_none_def)
  from device_mismatch_indicator [OF c(4) c(5) c(6), of 0 "[]" sample_format "''BLOCK''"
      "VFloat (Fin (9 / 10))" "(''VERIFY'', [])" "''device_123''" "''device_999''" VNone] e
  have 2: "device_check other_device_transaction (0, []) = (1, [''New/different device''])"
    by (simp add: absent_as_none_def)
  from device_mismatch_indicator [OF c(7) c(8) c(9), of 0 "[]" sample_format "''BLOCK''"
      "VFloat (Fin (9 / 10))" "(''VERIFY'', [])" "''a''" "''b''" "VStr ''device_123''"] e
  have 3: "device_check sample_transaction (0, []) = (1, [''New/different device''])"
    by (simp add: absent_as_none_def)
  from device_mismatch_indicator [OF c(10) c(11) c(12), of 0 "[]" sample_format "''BLOCK''"
      "VFloat (Fin (9 / 10))" "(''VERIFY'', [])" "''a''" "''b''" VNone] e
  have 4: "device_check risky_context (0, []) = (0, [])" by (simp add: absent_as_none_def)
  have 5: "''New/different device'' \<in> set (snd (projr
      (business_rules_body sample_format ''BLOCK'' (VFloat (Fin (9 / 10))) vip_transaction)))"
    by (simp add: vip_transaction_rules)
  from 1 2 3 4 5 show ?thesis by (intro conjI)
qed

section \<open>Rounding\<close>

lemma round_half_even_of_int: "round_half_even (of_int k) = k"
  by (simp add: round_half_even_def)

section \<open>Threshold updates\<close>

lemma map_of_dict_update:
  "map_of (dict_update d other) = map_of d ++ map_of (rev other)"
proof (induction other arbitrary: d)
  case Nil
  show ?case by (simp add: dict_update_def)
next
  case (Cons x xs)
  obtain k v where x: "x = (k, v)" by (cases x)
  have "map_of (dict_update d (x # xs)) = map_of (dict_update (AList.update k v d) xs)"
    by (simp add: dict_update_def x)
  also have "\<dots> = map_of (AList.update k v d) ++ map_of (rev xs)"
    by (rule Cons.IH)
  also have "\<dots> = map_of d ++ map_of (rev (x # xs))"
    by (simp add: update_conv' x map_add_upd_left fun_eq_iff map_add_def split: option.splits)
  finally show ?case .
qed

lemma validate_items_iff:
  "validate_items th d \<longleftrightarrow>
     (\<forall>(k, v) \<in> set d. map_of th k \<noteq> None \<longrightarrow> is_number v \<and> in_unit v)"
  by (induction d) (auto split: if_splits)

lemma dict_update_supplied:
  assumes "distinct (map fst d)" "(k, v) \<in> set d"
  shows "map_of (dict_update th d) k = Some v"
proof -
  from assms(1) have "distinct (map fst (rev d))"
    by (simp add: rev_map [symmetric])
  with assms(2) have "map_of (rev d) k = Some v"
    by simp
  then show ?thesis by (simp add: map_of_dict_update)
qed

lemma dict_update_other:
  assumes "k \<notin> fst ` set d"
  shows "map_of (dict_update th d) k = map_of th k"
proof -
  from assms have "map_of (rev d) k = None"
    by (simp add: map_of_eq_None_iff)
  then show ?thesis by (simp add: map_of_dict_update map_add_def)
qed

lemma update_thresholds_cases:
  assumes "update_thresholds eng (IsDict d) = Inr (ok, eng')"
  shows "(ok \<and> eng' = eng\<lparr>thresholds := dict_update (thresholds eng) d\<rparr> \<and>
          validate_items (thresholds eng) d \<and>
          (\<exists>a b. subscript (dict_update (thresholds eng) d) ''allow'' = Inr a \<and>
                 subscript (dict_update (thresholds eng) d) ''block'' = Inr b \<and>
                 py_lt a b = Inr True))
       \<or> (\<not> ok \<and> eng' = eng \<and>
          (\<not> validate_items (thresholds eng) d \<or>
           (\<exists>a b. subscript (dict_update (thresholds eng) d) ''allow'' = Inr a \<and>
                  subscript (dict_update (thresholds eng) d) ''block'' = Inr b \<and>
                  py_lt a b = Inr False)))"
  using assms
  by (auto simp: update_thresholds_def validate_thresholds_def bindE_eq_Inr Let_def
      split: if_splits)

lemma update_thresholds_failure:
  assumes "update_thresholds eng p = Inr (False, eng')"
  shows "eng' = eng"
  using assms
  by (cases p) (auto simp: update_thresholds_def bindE_eq_Inr split: if_splits)


lemma updated_threshold_numeric:
  assumes "validate_items th d" "map_of th k = Some A" "is_number A"
  shows "\<exists>a. map_of (dict_update th d) k = Some a \<and> is_number a"
proof (cases "map_of (rev d) k")
  case None
  with assms(2,3) show ?thesis
    by (simp add: map_of_dict_update map_add_def)
next
  case (Some v)
  then have "(k, v) \<in> set d"
    using map_of_SomeD [of "rev d" k v] by simp
  with assms(1,2) have "is_number v"
    by (auto simp: validate_items_iff)
  with Some show ?thesis
    by (simp add: map_of_dict_update map_add_def)
qed

lemma update_thresholds_total:
  assumes "map_of (thresholds eng) ''allow'' = Some A" "is_number A"
    and "map_of (thresholds eng) ''block'' = Some B" "is_number B"
  shows "\<exists>ok eng'. update_thresholds eng p = Inr (ok, eng')"
proof (cases p)
  case (NotDict v)
  then show ?thesis
    by (auto simp: update_thresholds_def validate_thresholds_def)
next
  case (IsDict d)
  show ?thesis
  proof (cases "validate_items (thresholds eng) d")
    case False
    with IsDict show ?thesis
      by (auto simp: update_thresholds_def validate_thresholds_def)
  next
    case True
    from updated_threshold_numeric [OF True assms(1,2)]
    obtain a x where a: "map_of (dict_update (thresholds eng) d) ''allow'' = Some a"
      "num_of a = Some x"
      by (auto simp: is_number_def)
    from updated_threshold_numeric [OF True assms(3,4)]
    obtain b y where b: "map_of (dict_update (thresholds eng) d) ''block'' = Some b"
      "num_of b = Some y"
      by (auto simp: is_number_def)
    from IsDict True a b show ?thesis
      by (auto simp: update_thresholds_def validate_thresholds_def subscript_def
          py_lt_num [OF a(2) b(2)])
  qed
qed

lemma update_thresholds_disorder:
  assumes "py_lt va vb = Inr False"
  shows "update_thresholds eng (IsDict [(''allow'', va), (''block'', vb)]) = Inr (False, eng)"
proof -
  have a: "map_of (dict_update (thresholds eng) [(''allow'', va), (''block'', vb)]) ''allow'' =
      Some va"
    and b: "map_of (dict_update (thresholds eng) [(''allow'', va), (''block'', vb)]) ''block'' =
      Some vb"
    by (simp_all add: map_of_dict_update map_add_def)
  show ?thesis
    by (simp only: update_thresholds_def validate_thresholds_def payload.case Let_def
        subscript_def a b option.case bindE_simps assms if_False split: if_split)
      simp
qed

lemma update_thresholds_swapped:
  "update_thresholds eng
     (IsDict [(''allow'', VFloat (Fin (8 / 10))), (''block'', VFloat (Fin (3 / 10)))]) =
     Inr (False, eng)"
  by (rule update_thresholds_disorder) (simp add: py_lt_def)

text \<open>
  Claim C4, as the code has it. \<open>update_thresholds\<close> validates the value of each supplied
  key that is already a key of the stored thresholds (it must be a number in [0, 1]; a
  supplied key that is not stored yet is not validated) and that the resulting
  configuration has allow < block. A call that returns failure leaves the engine as it
  was; a call that returns success has stored every supplied key and changed no other;
  with numeric allow and block stored the call always returns. The update
  \<open>{allow: 0.8, block: 0.3}\<close> is rejected from every state, which stays as it was.
\<close>

theorem update_thresholds_all_or_nothing:
  assumes "distinct (map fst d)"
  shows "(update_thresholds eng p = Inr (False, eng') \<longrightarrow> eng' = eng)
    \<and> (update_thresholds eng (IsDict d) = Inr (ok, eng') \<longrightarrow>
         (ok \<longleftrightarrow>
            (\<forall>(k, v) \<in> set d. map_of (thresholds eng) k \<noteq> None \<longrightarrow> is_number v \<and> in_unit v) \<and>
            (\<exists>a b. subscript (dict_update (thresholds eng) d) ''allow'' = Inr a \<and>
                   subscript (dict_update (thresholds eng) d) ''block'' = Inr b \<and>
                   py_lt a b = Inr True)))
    \<and> (update_thresholds eng (IsDict d) = Inr (True, eng') \<longrightarrow>
         risk_levels eng' = risk_levels eng \<and>
         (\<forall>(k, v) \<in> set d. map_of (thresholds eng') k = Some v) \<and>
         (\<forall>k. k \<notin> fst ` set d \<longrightarrow> map_of (thresholds eng') k = map_of (thresholds eng) k))
    \<and> (map_of (thresholds eng) ''allow'' = Some A \<and> is_number A \<and>
        map_of (thresholds eng) ''block'' = Some B \<and> is_number B \<longrightarrow>
         (\<exists>ok' eng''. update_thresholds eng p = Inr (ok', eng'')))
    \<and> update_thresholds eng
         (IsDict [(''allow'', VFloat (Fin (8 / 10))), (''block'', VFloat (Fin (3 / 10)))]) =
         Inr (False, eng)"
proof -
  have 1: "eng' = eng" if "update_thresholds eng p = Inr (False, eng')"
    using update_thresholds_failure [OF that] .
  have 2: "ok \<longleftrightarrow>
            (\<forall>(k, v) \<in> set d. map_of (thresholds eng) k \<noteq> None \<longrightarrow> is_number v \<and> in_unit v) \<and>
            (\<exists>a b. subscript (dict_update (thresholds eng) d) ''allow'' = Inr a \<and>
                   subscript (dict_update (thresholds eng) d) ''block'' = Inr b \<and>
                   py_lt a b = Inr True)"
    if "update_thresholds eng (IsDict d) = Inr (ok, eng')"
    using update_thresholds_cases [OF that] validate_items_iff [of "thresholds eng" d]
    by auto
  have 3: "risk_levels eng' = risk_levels eng \<and>
         (\<forall>(k, v) \<in> set d. map_of (thresholds eng') k = Some v) \<and>
         (\<forall>k. k \<notin> fst ` set d \<longrightarrow> map_of (thresholds eng') k = map_of (thresholds eng) k)"
    if "update_thresholds eng (IsDict d) = Inr (True, eng')"
  proof -
    from update_thresholds_cases [OF that]
    have e: "eng' = eng\<lparr>thresholds := dict_update (thresholds eng) d\<rparr>" by simp
    then show ?thesis
      using dict_update_supplied [OF assms] dict_update_other [of _ d "thresholds eng"]
      by auto
  qed
  have 4: "\<exists>ok' eng''. update_thresholds eng p = Inr (ok', eng'')"
    if "map_of (thresholds eng) ''allow'' = Some A" "is_number A"
      "map_of (thresholds eng) ''block'' = Some B" "is_number B"
    using update_thresholds_total [OF that] .
  from 1 2 3 4 update_thresholds_swapped [of eng] show ?thesis by blast
qed

theorem update_thresholds_all_or_nothing_witness:
  "update_thresholds (init_engine None)
     (IsDict [(''allow'', VFloat (Fin (3 / 10))), (''block'', VFloat (Fin (8 / 10)))]) =
     Inr (True, \<lparr>thresholds = [(''allow'', VFloat (Fin (3 / 10))),
                               (''verify'', VFloat (Fin (7 / 10))),
                               (''block'', VFloat (Fin (8 / 10)))],
                 risk_levels = RISK_LEVELS\<rparr>) \<and>
   update_thresholds (init_engine None)
     (IsDict [(''allow'', VFloat (Fin (8 / 10))), (''block'', VFloat (Fin (3 / 10)))]) =
     Inr (False, init_engine None)"
proof -
  have d: "distinct (map fst [(''allow'', VFloat (Fin (3 / 10))),
      (''block'', VFloat (Fin (8 / 10)))])"
    by simp
  have u: "update_thresholds (init_engine None)
     (IsDict [(''allow'', VFloat (Fin (3 / 10))), (''block'', VFloat (Fin (8 / 10)))]) =
     Inr (True, \<lparr>thresholds = [(''allow'', VFloat (Fin (3 / 10))),
                               (''verify'', VFloat (Fin (7 / 10))),
                               (''block'', VFloat (Fin (8 / 10)))],
                 risk_levels = RISK_LEVELS\<rparr>)"
    by (simp add: update_thresholds_def validate_thresholds_def init_engine_def
        FRAUD_THRESHOLDS_def dict_update_def subscript_def py_lt_def is_number_def in_unit_def)
  from update_thresholds_all_or_nothing [OF d, of "init_engine None"] u
  show ?thesis by blast
qed

text \<open>
  The claim as stated fails for a supplied key that is not stored: \<open>{limit: 5}\<close> has a
  value outside [0, 1], and the update is accepted and changes the stored thresholds.
\<close>

theorem unknown_key_counterexample:
  "\<not> in_unit (VInt 5) \<and>
   update_thresholds (init_engine None) (IsDict [(''limit'', VInt 5)]) =
     Inr (True, \<lparr>thresholds = FRAUD_THRESHOLDS @ [(''limit'', VInt 5)],
                 risk_levels = RISK_LEVELS\<rparr>)"
  by (simp add: update_thresholds_def validate_thresholds_def init_engine_def
      FRAUD_THRESHOLDS_def dict_update_def subscript_def py_lt_def is_number_def in_unit_def)

section \<open>The pipeline\<close>

lemma sample_transaction_valid: "validate_transaction_data sample_transaction = Inr ()"
  by (simp add: validate_transaction_data_def sample_transaction_def
      create_sample_transaction_def required_fields_def subscript_def is_number_def
      py_le_def)

lemma sample_transaction_rules:
  "business_rules_body sample_format ''ALLOW'' (VFloat (Fin 0)) sample_transaction =
     Inr (''ALLOW'', [''Fraud score: #.####'', ''New/different device'',
       ''Final action: ALLOW''])"
  by (simp add: business_rules_body_def sample_format_def
        sample_transaction_def create_sample_transaction_def
        high_amount_rule_def new_receiver_rule_def indicator_rule_def
        count_indicators_def location_check_def frequency_check_def
        receiver_check_def device_check_def unusual_hour_check_def escalate_def
        vip_rule_def micro_night_rule_def get_def py_gt_def py_lt_def py_le_def py_ge_def
        py_eq_def py_ne_def flt_eq_def Let_def)

lemma zero_score_decision:
  "make_decision sample_format (init_engine None) (VFloat (Fin 0)) (Some sample_transaction) =
     Inr \<lparr>d_fraud_score = VFloat (Fin 0), d_risk_level = ''LOW'', d_action = ''ALLOW'',
          d_reasoning = ''Fraud score: #.#### | New/different device | Final action: ALLOW'',
          d_confidence = Fin 1\<rparr>"
proof -
  have b: "get_base_action (init_engine None) (VFloat (Fin 0)) = Inr ''ALLOW''"
    by (simp add: base_action_default [of _ 0])
  have r: "get_risk_level (init_engine None) (VFloat (Fin 0)) = Inr ''LOW''"
    by (simp add: risk_level_default [of _ 0])
  have "flt_round 3 (Fin 1) = Fin 1"
    using round_half_even_of_int [of 1000] by simp
  then have c: "calculate_confidence (init_engine None) (VFloat (Fin 0)) = Inr (Fin 1)"
    by (simp add: calculate_confidence_def init_engine_def FRAUD_THRESHOLDS_def subscript_def
        py_sub_def py_min2_def del: flt_round.simps)
  have z: "round_half_even 0 = 0"
    using round_half_even_of_int [of 0] by simp
  show ?thesis
    by (simp add: make_decision_def b r c apply_business_rules_def sample_transaction_rules z)
qed

lemma clamp_non_finite:
  "py_max2 (Fin 0) (py_min2 (Fin 1) NaN) = Fin 1"
  "py_max2 (Fin 0) (py_min2 (Fin 1) PInf) = Fin 1"
  "py_max2 (Fin 0) (py_min2 (Fin 1) NInf) = Fin 0"
  by (simp_all add: py_max2_def py_min2_def)

lemma garbled_transaction_valid: "validate_transaction_data garbled_transaction = Inr ()"
  by (simp add: validate_transaction_data_def garbled_transaction_def sample_transaction_def
      create_sample_transaction_def required_fields_def subscript_def is_number_def
      py_le_def)

lemma garbled_transaction_rules:
  "business_rules_body sample_format ''ALLOW'' (VFloat (Fin (1 / 10))) garbled_transaction =
     Inl TypeError"
  by (simp add: business_rules_body_def sample_format_def garbled_transaction_def
        sample_transaction_def create_sample_transaction_def
        high_amount_rule_def new_receiver_rule_def indicator_rule_def
        count_indicators_def location_check_def frequency_check_def
        receiver_check_def device_check_def unusual_hour_check_def escalate_def
        vip_rule_def micro_night_rule_def get_def py_gt_def py_lt_def py_le_def py_ge_def
        py_eq_def py_ne_def flt_eq_def Let_def)

lemma garbled_transaction_decision:
  "make_decision sample_format (init_engine None) (VFloat (Fin (1 / 10)))
     (Some garbled_transaction) = Inl TypeError"
proof -
  have b: "get_base_action (init_engine None) (VFloat (Fin (1 / 10))) = Inr ''ALLOW''"
    by (simp add: base_action_default [of _ "1 / 10"])
  have r: "get_risk_level (init_engine None) (VFloat (Fin (1 / 10))) = Inr ''LOW''"
    by (simp add: risk_level_default [of _ "1 / 10"])
  show ?thesis
    by (simp add: make_decision_def b r apply_business_rules_def garbled_transaction_rules)
qed

lemma risky_context_invalid:
  "validate_transaction_data risky_context =
     Inl (ValueError
       ''Missing required fields: ['sender_id', 'receiver_id', 'transaction_time', 'device_id', 'ip_address']'')"
  by (simp add: validate_transaction_data_def risky_context_def required_fields_def
      repr_fields_def)

text \<open>
  Claim C2, as the code has it. On a loaded pipeline \<open>predict_fraud\<close> always returns a
  result, for every transaction dict and every behaviour of the preprocessor and the
  model. Whenever validation, preprocessing, scoring or the decision raises, the result
  is the error response: its action is BLOCK and it carries the exception. A non-finite
  value of the model is no failure: it is clamped like any value out of range (NaN and
  +inf to 1.0, -inf to 0.0), and the decision is made on the clamped score.
\<close>

theorem predict_fraud_fail_safe:
  assumes "is_loaded p"
  shows "(\<exists>r. predict_fraud fmt p td = Inr r)
    \<and> is_error_result (create_error_response e td)
    \<and> r_action (action_response (create_error_response e td)) = ''BLOCK''
    \<and> error (create_error_response e td) = e
    \<and> (validate_transaction_data td = Inl e \<longrightarrow>
         predict_fraud fmt p td = Inr (create_error_response e td))
    \<and> (validate_transaction_data td = Inr () \<and>
        preprocess_single_transaction p td = Inl e \<longrightarrow>
         predict_fraud fmt p td = Inr (create_error_response e td))
    \<and> (validate_transaction_data td = Inr () \<and>
        preprocess_single_transaction p td = Inr X \<and>
        predict_fraud_probability p X = Inl e \<longrightarrow>
         predict_fraud fmt p td = Inr (create_error_response e td))
    \<and> (validate_transaction_data td = Inr () \<and>
        preprocess_single_transaction p td = Inr X \<and>
        predict_fraud_probability p X = Inr raw \<and>
        make_decision fmt (decision_engine p)
          (VFloat (py_max2 (Fin 0) (py_min2 (Fin 1) raw))) (Some td) = Inl e \<longrightarrow>
         predict_fraud fmt p td = Inr (create_error_response e td))
    \<and> (validate_transaction_data td = Inr () \<and>
        preprocess_single_transaction p td = Inr X \<and>
        predict_fraud_probability p X = Inr raw \<and>
        make_decision fmt (decision_engine p)
          (VFloat (py_max2 (Fin 0) (py_min2 (Fin 1) raw))) (Some td) = Inr dec \<longrightarrow>
         predict_fraud fmt p td =
           Inr (FinalResult (get td ''transaction_id'' (VStr ''unknown'')) dec
                  (process_action dec)))
    \<and> py_max2 (Fin 0) (py_min2 (Fin 1) NaN) = Fin 1
    \<and> py_max2 (Fin 0) (py_min2 (Fin 1) PInf) = Fin 1
    \<and> py_max2 (Fin 0) (py_min2 (Fin 1) NInf) = Fin 0"
  using assms
  by (simp add: predict_fraud_def detection_steps_def create_error_response_def
      clamp_non_finite split: sum.splits)


theorem predict_fraud_fail_safe_witness:
  "predict_fraud sample_format (stub_pipeline (Fin (1 / 10))) risky_context =
     Inr (create_error_response (ValueError
       ''Missing required fields: ['sender_id', 'receiver_id', 'transaction_time', 'device_id', 'ip_address']'')
       risky_context) \<and>
   predict_fraud sample_format
     (stub_pipeline (Fin (1 / 10))\<lparr>preprocess_single_transaction := preprocessor_failure\<rparr>)
     sample_transaction =
     Inr (create_error_response (External ''KeyError'') sample_transaction) \<and>
   predict_fraud sample_format
     (stub_pipeline (Fin (1 / 10))\<lparr>predict_fraud_probability := model_not_loaded\<rparr>)
     sample_transaction =
     Inr (create_error_response (ValueError ''Model not trained or loaded!'')
       sample_transaction) \<and>
   predict_fraud sample_format (stub_pipeline (Fin (1 / 10))) garbled_transaction =
     Inr (create_error_response TypeError garbled_transaction) \<and>
   r_action (action_response (create_error_response TypeError garbled_transaction)) = ''BLOCK''"
proof -
  have l: "is_loaded (stub_pipeline (Fin (1 / 10)))"
    "is_loaded (stub_pipeline (Fin (1 / 10))\<lparr>preprocess_single_transaction := preprocessor_failure\<rparr>)"
    "is_loaded (stub_pipeline (Fin (1 / 10))\<lparr>predict_fraud_probability := model_not_loaded\<rparr>)"
    by (simp_all add: stub_pipeline_def)
  have c: "py_max2 (Fin 0) (py_min2 (Fin 1) (Fin (1 / 10))) = Fin (1 / 10)"
    by (simp add: py_max2_def py_min2_def)
  from predict_fraud_fail_safe [OF l(1), of sample_format risky_context
      "ValueError ''Missing required fields: ['sender_id', 'receiver_id', 'transaction_time', 'device_id', 'ip_address']''"]
    risky_context_invalid
  have 1: "predict_fraud sample_format (stub_pipeline (Fin (1 / 10))) risky_context =
     Inr (create_error_response (ValueError
       ''Missing required fields: ['sender_id', 'receiver_id', 'transaction_time', 'device_id', 'ip_address']'')
       risky_context)"
    by blast
  from predict_fraud_fail_safe [OF l(2), of sample_format sample_transaction
      "External ''KeyError''"] sample_transaction_valid
  have 2: "predict_fraud sample_format
     (stub_pipeline (Fin (1 / 10))\<lparr>preprocess_single_transaction := preprocessor_failure\<rparr>)
     sample_transaction =
     Inr (create_error_response (External ''KeyError'') sample_transaction)"
    by (simp add: preprocessor_failure_def)
  from predict_fraud_fail_safe [OF l(3), of sample_format sample_transaction
      "ValueError ''Model not trained or loaded!''" "()"] sample_transaction_valid
  have 3: "predict_fraud sample_format
     (stub_pipeline (Fin (1 / 10))\<lparr>predict_fraud_probability := model_not_loaded\<rparr>)
     sample_transaction =
     Inr (create_error_response (ValueError ''Model not trained or loaded!'')
       sample_transaction)"
    by (simp add: model_not_loaded_def stub_pipeline_def)
  from predict_fraud_fail_safe [OF l(1), of sample_format garbled_transaction
      TypeError "()" "Fin (1 / 10)"] garbled_transaction_valid garbled_transaction_decision c
  have 4: "predict_fraud sample_format (stub_pipeline (Fin (1 / 10))) garbled_transaction =
     Inr (create_error_response TypeError garbled_transaction) \<and>
     r_action (action_response (create_error_response TypeError garbled_transaction)) = ''BLOCK''"
    by (simp add: stub_pipeline_def)
  from 1 2 3 4 show ?thesis by blast
qed


text \<open>
  The claim as stated fails where the model returns a non-finite value: with \<open>-inf\<close> the
  sample transaction gets an ordinary result whose action is ALLOW, not an error result.
\<close>

theorem non_finite_score_counterexample:
  "is_loaded (stub_pipeline NInf) \<and>
   predict_fraud_probability (stub_pipeline NInf) () = Inr NInf \<and>
   predict_fraud sample_format (stub_pipeline NInf) sample_transaction =
     Inr (FinalResult (VStr ''TXN_20240101120000'')
       \<lparr>d_fraud_score = VFloat (Fin 0), d_risk_level = ''LOW'', d_action = ''ALLOW'',
        d_reasoning = ''Fraud score: #.#### | New/different device | Final action: ALLOW'',
        d_confidence = Fin 1\<rparr>
       \<lparr>r_status = ''success'', r_action = ''ALLOW'',
        r_message = ''Transaction approved successfully'',
        r_user_message = ''Your transaction has been processed'',
        r_next_steps = [''complete_transaction''],
        r_verification_methods = None,
        r_fraud_score = Some (VFloat (Fin 0)),
        r_risk_level = Some ''LOW''\<rparr>)"
proof -
  have t: "get sample_transaction ''transaction_id'' (VStr ''unknown'') =
      VStr ''TXN_20240101120000''"
    by (simp add: get_def sample_transaction_def create_sample_transaction_def)
  show ?thesis
    by (simp add: predict_fraud_def detection_steps_def stub_pipeline_def
        sample_transaction_valid clamp_non_finite zero_score_decision t process_action_def)
qed

section \<open>Batches\<close>

lemma update_absent_key:
  "map_of td k = None \<Longrightarrow> AList.update k v td = td @ [(k, v)]"
  by (induction td) (auto split: if_splits)

lemma predict_fraud_on_store: "snd (predict_fraud_on fmt p st r) = st"
  by (simp add: predict_fraud_on_def split: payload.splits)

lemma batch_item_store:
  "snd (batch_item fmt p i st r) =
     (case st r of
        NotDict v \<Rightarrow> st
      | IsDict td \<Rightarrow>
          if map_of td ''transaction_id'' = None
          then st(r := IsDict (td @ [(''transaction_id'', VStr (''BATCH_'' @ pad4 (i + 1)))]))
          else st)"
proof (cases "st r")
  case (NotDict v)
  then show ?thesis by (simp add: batch_item_def)
next
  case (IsDict td)
  have "snd (batch_item fmt p i st r) =
      snd (predict_fraud_on fmt p
        (st(r := IsDict (if map_of td ''transaction_id'' = None
           then AList.update ''transaction_id'' (VStr (''BATCH_'' @ pad4 (i + 1))) td
           else td))) r)"
    using IsDict by (simp add: batch_item_def Let_def split: prod.splits sum.splits)
  with IsDict show ?thesis
    by (auto simp: predict_fraud_on_store update_absent_key)
qed

lemma batch_item_result:
  "fst (batch_item fmt p i st r) =
     (case st r of
        NotDict v \<Rightarrow> Inl AttributeError
      | IsDict td \<Rightarrow>
          Inr (case predict_fraud fmt p
                      (if map_of td ''transaction_id'' = None
                       then td @ [(''transaction_id'', VStr (''BATCH_'' @ pad4 (i + 1)))]
                       else td) of
                 Inl e \<Rightarrow> create_error_response e
                      (if map_of td ''transaction_id'' = None
                       then td @ [(''transaction_id'', VStr (''BATCH_'' @ pad4 (i + 1)))]
                       else td)
               | Inr res \<Rightarrow> res))"
  by (auto simp: batch_item_def Let_def predict_fraud_on_def update_absent_key
      split: payload.splits sum.splits)

lemma batch_loop_store:
  "snd (batch_loop fmt p i st (r # rest)) =
     (case st r of
        NotDict v \<Rightarrow> st
      | IsDict td \<Rightarrow> snd (batch_loop fmt p (Suc i) (snd (batch_item fmt p i st r)) rest))"
proof (cases "st r")
  case (NotDict v)
  then show ?thesis by (simp add: batch_item_def)
next
  case (IsDict td)
  then obtain res where f: "fst (batch_item fmt p i st r) = Inr res"
    by (simp add: batch_item_result)
  obtain st1 where b: "batch_item fmt p i st r = (Inr res, st1)"
    using f by (cases "batch_item fmt p i st r") simp
  from b IsDict show ?thesis
    by (simp split: prod.splits sum.splits)
qed

lemma batch_loop_result:
  "fst (batch_loop fmt p i st (r # rest)) =
     (case fst (batch_item fmt p i st r) of
        Inl e \<Rightarrow> Inl e
      | Inr res \<Rightarrow>
          (case fst (batch_loop fmt p (Suc i) (snd (batch_item fmt p i st r)) rest) of
             Inl e \<Rightarrow> Inl e
           | Inr results \<Rightarrow> Inr (res # results)))"
  by (simp split: prod.splits sum.splits)


declare batch_loop.simps(2) [simp del]

lemma batch_item_keeps:
  assumes "x \<noteq> r"
  shows "snd (batch_item fmt p i st r) x = st x"
  using assms by (simp add: batch_item_store split: payload.splits)

lemma batch_loop_frame:
  "(\<forall>v. st r = NotDict v \<longrightarrow> snd (batch_loop fmt p i st refs) r = NotDict v)
   \<and> (r \<notin> set refs \<longrightarrow> snd (batch_loop fmt p i st refs) r = st r)
   \<and> (\<forall>td. st r = IsDict td \<and> map_of td ''transaction_id'' \<noteq> None \<longrightarrow>
         snd (batch_loop fmt p i st refs) r = IsDict td)
   \<and> (\<forall>td. st r = IsDict td \<longrightarrow>
         (\<exists>td'. snd (batch_loop fmt p i st refs) r = IsDict td' \<and>
            (\<forall>k. k \<noteq> ''transaction_id'' \<longrightarrow> map_of td' k = map_of td k) \<and>
            (td' = td \<or>
             (\<exists>j < length refs. refs ! j = r \<and> (\<forall>j' < j. refs ! j' \<noteq> r) \<and>
                td' = td @ [(''transaction_id'', VStr (''BATCH_'' @ pad4 (i + j + 1)))]))))"
proof (induction refs arbitrary: i st)
  case Nil
  show ?case by simp
next
  case (Cons x rest)
  show ?case
  proof (cases "st x")
    case (NotDict v)
    then show ?thesis by (simp add: batch_loop_store)
  next
    case (IsDict tx)
    define st1 where "st1 = snd (batch_item fmt p i st x)"
    have loop: "snd (batch_loop fmt p i st (x # rest)) = snd (batch_loop fmt p (Suc i) st1 rest)"
      using IsDict by (simp add: batch_loop_store st1_def)
    note IH = Cons.IH [of st1 "Suc i"]
    show ?thesis
    proof (cases "r = x")
      case False
      then have same: "st1 r = st r"
        by (simp add: st1_def batch_item_keeps)
      have a: "\<forall>v. st r = NotDict v \<longrightarrow> snd (batch_loop fmt p i st (x # rest)) r = NotDict v"
        using IH same loop by simp
      have b: "r \<notin> set (x # rest) \<longrightarrow> snd (batch_loop fmt p i st (x # rest)) r = st r"
        using IH same loop by simp
      have c: "\<forall>td. st r = IsDict td \<and> map_of td ''transaction_id'' \<noteq> None \<longrightarrow>
         snd (batch_loop fmt p i st (x # rest)) r = IsDict td"
        using IH same loop by simp
      have d: "\<exists>td'. snd (batch_loop fmt p i st (x # rest)) r = IsDict td' \<and>
            (\<forall>k. k \<noteq> ''transaction_id'' \<longrightarrow> map_of td' k = map_of td k) \<and>
            (td' = td \<or>
             (\<exists>j < length (x # rest). (x # rest) ! j = r \<and> (\<forall>j' < j. (x # rest) ! j' \<noteq> r) \<and>
                td' = td @ [(''transaction_id'', VStr (''BATCH_'' @ pad4 (i + j + 1)))]))"
        if td: "st r = IsDict td" for td
      proof -
        from IH same td obtain td' where
          1: "snd (batch_loop fmt p (Suc i) st1 rest) r = IsDict td'"
          and 2: "\<forall>k. k \<noteq> ''transaction_id'' \<longrightarrow> map_of td' k = map_of td k"
          and 3: "td' = td \<or>
             (\<exists>j < length rest. rest ! j = r \<and> (\<forall>j' < j. rest ! j' \<noteq> r) \<and>
                td' = td @ [(''transaction_id'', VStr (''BATCH_'' @ pad4 (Suc i + j + 1)))])"
          by auto
        from 3 have "td' = td \<or>
             (\<exists>j < length (x # rest). (x # rest) ! j = r \<and> (\<forall>j' < j. (x # rest) ! j' \<noteq> r) \<and>
                td' = td @ [(''transaction_id'', VStr (''BATCH_'' @ pad4 (i + j + 1)))])"
        proof
          assume "td' = td"
          then show ?thesis by simp
        next
          assume "\<exists>j < length rest. rest ! j = r \<and> (\<forall>j' < j. rest ! j' \<noteq> r) \<and>
                td' = td @ [(''transaction_id'', VStr (''BATCH_'' @ pad4 (Suc i + j + 1)))]"
          then obtain j where j: "j < length rest" "rest ! j = r" "\<forall>j' < j. rest ! j' \<noteq> r"
            "td' = td @ [(''transaction_id'', VStr (''BATCH_'' @ pad4 (Suc i + j + 1)))]"
            by blast
          have "\<forall>j' < Suc j. (x # rest) ! j' \<noteq> r"
          proof (intro allI impI)
            fix j' assume "j' < Suc j"
            then show "(x # rest) ! j' \<noteq> r"
              using False j(3) by (cases j') auto
          qed
          with j have "Suc j < length (x # rest) \<and> (x # rest) ! Suc j = r \<and>
              (\<forall>j' < Suc j. (x # rest) ! j' \<noteq> r) \<and>
              td' = td @ [(''transaction_id'', VStr (''BATCH_'' @ pad4 (i + Suc j + 1)))]"
            by simp
          then show ?thesis by blast
        qed
        with 1 2 loop show ?thesis by simp
      qed
      from a b c d show ?thesis by blast
    next
      case True
      show ?thesis
      proof (cases "map_of tx ''transaction_id'' = None")
        case False
        then have same: "st1 r = st r"
          using IsDict True by (simp add: st1_def batch_item_store)
        have c: "snd (batch_loop fmt p i st (x # rest)) r = IsDict tx"
          using IH same loop IsDict True False by simp
        with IsDict True show ?thesis by auto
      next
        case None: True
        let ?t = "tx @ [(''transaction_id'', VStr (''BATCH_'' @ pad4 (i + 1)))]"
        have new: "st1 r = IsDict ?t"
          using IsDict True None by (simp add: st1_def batch_item_store)
        have "map_of ?t ''transaction_id'' \<noteq> None"
          by (simp add: map_add_def split: option.splits)
        with IH new have "snd (batch_loop fmt p (Suc i) st1 rest) r = IsDict ?t"
          by blast
        with loop have fin: "snd (batch_loop fmt p i st (x # rest)) r = IsDict ?t"
          by simp
        have fr: "\<forall>k. k \<noteq> ''transaction_id'' \<longrightarrow> map_of ?t k = map_of tx k"
          by (auto simp: map_add_def split: option.splits)
        have pos: "\<exists>j < length (x # rest). (x # rest) ! j = r \<and> (\<forall>j' < j. (x # rest) ! j' \<noteq> r) \<and>
            ?t = tx @ [(''transaction_id'', VStr (''BATCH_'' @ pad4 (i + j + 1)))]"
          using True by (intro exI [of _ 0]) simp
        from IsDict True None fin fr pos show ?thesis by auto
      qed
    qed
  qed
qed


lemma batch_loop_aborts:
  assumes "r \<in> set refs" "st r = NotDict v"
  shows "fst (batch_loop fmt p i st refs) = Inl AttributeError"
  using assms
proof (induction refs arbitrary: i st)
  case Nil
  then show ?case by simp
next
  case (Cons x rest)
  show ?case
  proof (cases "st x")
    case (NotDict w)
    then show ?thesis
      by (simp add: batch_loop_result batch_item_result)
  next
    case (IsDict tx)
    with Cons.prems have "r \<noteq> x" "r \<in> set rest" by auto
    then have "snd (batch_item fmt p i st x) r = NotDict v"
      using Cons.prems(2) by (simp add: batch_item_keeps)
    from Cons.IH [where st = "snd (batch_item fmt p i st x)" and i = "Suc i",
        OF \<open>r \<in> set rest\<close> this]
    show ?thesis
      using IsDict by (simp add: batch_loop_result batch_item_result)
  qed
qed

lemma batch_loop_dicts:
  assumes "\<forall>x \<in> set refs. \<exists>t. st x = IsDict t"
  shows "(\<exists>results. fst (batch_loop fmt p i st refs) = Inr results \<and>
            length results = length refs)
    \<and> (\<forall>r \<in> set refs. \<exists>td'. snd (batch_loop fmt p i st refs) r = IsDict td' \<and>
            map_of td' ''transaction_id'' \<noteq> None)"
  using assms
proof (induction refs arbitrary: i st)
  case Nil
  show ?case by simp
next
  case (Cons x rest)
  from Cons.prems obtain tx where tx: "st x = IsDict tx" by auto
  define st1 where "st1 = snd (batch_item fmt p i st x)"
  have "\<exists>t1. st1 x = IsDict t1 \<and> map_of t1 ''transaction_id'' \<noteq> None"
  proof (cases "map_of tx ''transaction_id'' = None")
    case True
    with tx show ?thesis
      by (simp add: st1_def batch_item_store map_add_def)
  next
    case False
    with tx show ?thesis
      by (auto simp: st1_def batch_item_store)
  qed
  then obtain t1 where t1: "st1 x = IsDict t1" "map_of t1 ''transaction_id'' \<noteq> None"
    by blast
  have dicts: "\<forall>y \<in> set rest. \<exists>t. st1 y = IsDict t"
  proof
    fix y assume "y \<in> set rest"
    with Cons.prems obtain t where "st y = IsDict t" by auto
    then show "\<exists>t. st1 y = IsDict t"
      using t1(1) by (cases "y = x") (simp_all add: st1_def batch_item_keeps)
  qed
  note IH = Cons.IH [where st = st1 and i = "Suc i", OF dicts]
  have loop: "snd (batch_loop fmt p i st (x # rest)) = snd (batch_loop fmt p (Suc i) st1 rest)"
    using tx by (simp add: batch_loop_store st1_def)
  obtain res where res: "fst (batch_item fmt p i st x) = Inr res"
    using tx by (simp add: batch_item_result)
  from IH obtain results where
    r: "fst (batch_loop fmt p (Suc i) st1 rest) = Inr results" "length results = length rest"
    by blast
  have 1: "\<exists>results. fst (batch_loop fmt p i st (x # rest)) = Inr results \<and>
            length results = length (x # rest)"
    using res r by (simp add: batch_loop_result st1_def [symmetric])
  have 2: "\<exists>td'. snd (batch_loop fmt p i st (x # rest)) y = IsDict td' \<and>
            map_of td' ''transaction_id'' \<noteq> None"
    if "y \<in> set (x # rest)" for y
  proof (cases "y \<in> set rest")
    case True
    with IH loop show ?thesis by simp
  next
    case False
    with that have "y = x" by simp
    with t1 batch_loop_frame [of st1 x fmt p "Suc i" rest] loop show ?thesis
      by auto
  qed
  from 1 2 show ?case by blast
qed

lemma pad4_small:
  "pad4 1 = ''0001''" "pad4 (Suc 0) = ''0001''" "pad4 (0 + 1) = ''0001''"
  by (simp_all add: pad4_def numeral_3_eq_3)

lemma sample_store_objects:
  "sample_store 0 = IsDict anonymous_transaction"
  "sample_store 1 = IsDict risky_context"
  "sample_store (Suc 0) = IsDict risky_context"
  "sample_store 2 = IsDict sample_transaction"
  "sample_store 3 = NotDict (VInt 5)"
  by (simp_all add: sample_store_def)

lemma sample_identifiers:
  "map_of anonymous_transaction ''transaction_id'' = None"
  "map_of risky_context ''transaction_id'' = None"
  "map_of sample_transaction ''transaction_id'' = Some (VStr ''TXN_20240101120000'')"
  by (simp_all add: anonymous_transaction_def risky_context_def sample_transaction_def
      create_sample_transaction_def AList.delete_eq)

lemma turn_result_id:
  "transaction_id (case predict_fraud fmt p td of
                     Inl e \<Rightarrow> create_error_response e td | Inr res \<Rightarrow> res) =
     get td ''transaction_id'' (VStr ''unknown'')"
  by (auto simp: predict_fraud_def create_error_response_def detection_steps_def
      bindE_eq_Inr Let_def split: sum.splits if_splits)

lemma aliased_items_share_identifier:
  "map transaction_id
     (projr (fst (batch_predict sample_format (stub_pipeline NInf) sample_store [0, 0]))) =
     [VStr ''BATCH_0001'', VStr ''BATCH_0001'']"
  by (simp add: batch_predict_def batch_loop_result batch_item_result batch_item_store
      sample_store_objects sample_identifiers pad4_small turn_result_id get_def map_add_def
      cong: sum.case_cong)

text \<open>
  Claim C9, as the code has it. \<open>predict_fraud\<close> leaves the store as it finds it.
  \<open>batch_predict\<close> changes the caller's objects in one way only: a dict without
  \<open>transaction_id\<close> gets that entry appended, with the identifier of the first position
  at which the list holds it. Whatever the list holds and whether or not the call ends
  with an exception: an object that is not a dict, an object the list does not hold and
  a dict that has an identifier are as before, and every other entry of every dict, the
  \<open>timestamp\<close> included, is as before. When every item is a dict, every item has an
  identifier afterwards. No timestamp is added by either function.
\<close>

theorem batch_predict_frame:
  "snd (predict_fraud_on fmt p st r) = st
   \<and> (\<forall>v. st r = NotDict v \<longrightarrow> snd (batch_predict fmt p st refs) r = NotDict v)
   \<and> (r \<notin> set refs \<longrightarrow> snd (batch_predict fmt p st refs) r = st r)
   \<and> (\<forall>td. st r = IsDict td \<and> map_of td ''transaction_id'' \<noteq> None \<longrightarrow>
         snd (batch_predict fmt p st refs) r = IsDict td)
   \<and> (\<forall>td. st r = IsDict td \<longrightarrow>
         (\<exists>td'. snd (batch_predict fmt p st refs) r = IsDict td' \<and>
            (\<forall>k. k \<noteq> ''transaction_id'' \<longrightarrow> map_of td' k = map_of td k) \<and>
            (td' = td \<or>
             (\<exists>j < length refs. refs ! j = r \<and> (\<forall>j' < j. refs ! j' \<noteq> r) \<and>
                td' = td @ [(''transaction_id'', VStr (''BATCH_'' @ pad4 (j + 1)))]))))
   \<and> ((\<forall>x \<in> set refs. \<exists>t. st x = IsDict t) \<and> r \<in> set refs \<longrightarrow>
         (\<exists>td'. snd (batch_predict fmt p st refs) r = IsDict td' \<and>
            map_of td' ''transaction_id'' \<noteq> None))"
proof -
  note f = batch_loop_frame [of st r fmt p 0 refs, unfolded add_0]
  have d: "\<exists>td'. snd (batch_predict fmt p st refs) r = IsDict td' \<and>
            map_of td' ''transaction_id'' \<noteq> None"
    if "\<forall>x \<in> set refs. \<exists>t. st x = IsDict t" "r \<in> set refs"
    using batch_loop_dicts [OF that(1), of fmt p 0] that(2)
    by (simp add: batch_predict_def)
  from f d predict_fraud_on_store [of fmt p st r] show ?thesis
    unfolding batch_predict_def by blast
qed


theorem batch_predict_frame_witness:
  "snd (predict_fraud_on sample_format (stub_pipeline NInf) sample_store 2) = sample_store \<and>
   snd (batch_predict sample_format (stub_pipeline NInf) sample_store [0, 0, 2]) 0 =
     IsDict (anonymous_transaction @ [(''transaction_id'', VStr ''BATCH_0001'')]) \<and>
   snd (batch_predict sample_format (stub_pipeline NInf) sample_store [0, 0, 2]) 2 =
     IsDict sample_transaction \<and>
   snd (batch_predict sample_format (stub_pipeline NInf) sample_store [0, 0, 2]) 1 =
     IsDict risky_context \<and>
   snd (batch_predict sample_format (stub_pipeline NInf) sample_store [0, 0, 2]) 3 =
     NotDict (VInt 5)"
proof -
  let ?after = "snd (batch_predict sample_format (stub_pipeline NInf) sample_store [0, 0, 2])"
  note o = sample_store_objects
  note T0 = batch_predict_frame [of sample_format "stub_pipeline NInf" sample_store 0 "[0, 0, 2]"]
  note T1 = batch_predict_frame [of sample_format "stub_pipeline NInf" sample_store 1 "[0, 0, 2]"]
  note T2 = batch_predict_frame [of sample_format "stub_pipeline NInf" sample_store 2 "[0, 0, 2]"]
  note T3 = batch_predict_frame [of sample_format "stub_pipeline NInf" sample_store 3 "[0, 0, 2]"]
  have dicts: "\<forall>x \<in> set [0, 0, 2]. \<exists>t. sample_store x = IsDict t"
    by (simp add: o)
  have 1: "snd (predict_fraud_on sample_format (stub_pipeline NInf) sample_store 2) =
      sample_store"
    using T2 [THEN conjunct1] .
  from T0 [THEN conjunct2, THEN conjunct2, THEN conjunct2, THEN conjunct2, THEN conjunct2,
      rule_format, OF conjI, OF dicts]
  obtain t where t: "?after 0 = IsDict t" "map_of t ''transaction_id'' \<noteq> None"
    by auto
  from T0 [THEN conjunct2, THEN conjunct2, THEN conjunct2, THEN conjunct2, THEN conjunct1,
      rule_format, OF o(1)] t(1)
  have "t = anonymous_transaction \<or>
      (\<exists>j < length [0::nat, 0, 2]. [0::nat, 0, 2] ! j = 0 \<and> (\<forall>j' < j. [0::nat, 0, 2] ! j' \<noteq> 0) \<and>
         t = anonymous_transaction @ [(''transaction_id'', VStr (''BATCH_'' @ pad4 (j + 1)))])"
    by auto
  then have "t = anonymous_transaction @ [(''transaction_id'', VStr ''BATCH_0001'')]"
  proof
    assume "t = anonymous_transaction"
    with t(2) sample_identifiers(1) show ?thesis by simp
  next
    assume "\<exists>j < length [0::nat, 0, 2]. [0::nat, 0, 2] ! j = 0 \<and>
         (\<forall>j' < j. [0::nat, 0, 2] ! j' \<noteq> 0) \<and>
         t = anonymous_transaction @ [(''transaction_id'', VStr (''BATCH_'' @ pad4 (j + 1)))]"
    then obtain j where j: "\<forall>j' < j. [0::nat, 0, 2] ! j' \<noteq> 0"
      "t = anonymous_transaction @ [(''transaction_id'', VStr (''BATCH_'' @ pad4 (j + 1)))]"
      by blast
    have "j = 0"
    proof (rule ccontr)
      assume "j \<noteq> 0"
      then have "0 < j" by simp
      with j(1) show False by auto
    qed
    with j(2) show ?thesis by (simp add: pad4_small)
  qed
  with t(1) have 2: "?after 0 =
      IsDict (anonymous_transaction @ [(''transaction_id'', VStr ''BATCH_0001'')])"
    by simp
  have 3: "?after 2 = IsDict sample_transaction"
    using T2 [THEN conjunct2, THEN conjunct2, THEN conjunct2, THEN conjunct1, rule_format,
        of sample_transaction] o(4) sample_identifiers(3)
    by simp
  have 4: "?after 1 = IsDict risky_context"
    using T1 [THEN conjunct2, THEN conjunct2, THEN conjunct1] o(2) by simp
  have 5: "?after 3 = NotDict (VInt 5)"
    using T3 [THEN conjunct2, THEN conjunct1, rule_format, OF o(5)] .
  from 1 2 3 4 5 show ?thesis by (intro conjI)
qed

text \<open>
  The claim as stated fails: the field that \<open>batch_predict\<close> adds to the caller's dict is
  the \<open>transaction_id\<close>, not a timestamp.
\<close>

theorem batch_adds_identifier_counterexample:
  "sample_store 0 = IsDict anonymous_transaction \<and>
   map_of anonymous_transaction ''transaction_id'' = None \<and>
   snd (batch_predict sample_format (stub_pipeline NInf) sample_store [0]) 0 =
     IsDict (anonymous_transaction @ [(''transaction_id'', VStr ''BATCH_0001'')])"
  by (simp add: batch_predict_def batch_loop_store batch_item_store sample_store_objects
      sample_identifiers pad4_small)

text \<open>
  Claim C6 says that a failure on one item gives an error result at the position of
  that item and leaves the other results alone. For an item that is not a dict the
  handler of the loop fails itself: the batch of the sample transaction and the number 5
  returns no results at all, it ends with \<open>AttributeError\<close>.
\<close>

theorem non_dict_item_aborts_batch:
  "sample_store 2 = IsDict sample_transaction \<and>
   sample_store 3 = NotDict (VInt 5) \<and>
   batch_predict sample_format (stub_pipeline NInf) sample_store [2, 3] =
     (Inl AttributeError, sample_store)"
proof -
  have f: "fst (batch_predict sample_format (stub_pipeline NInf) sample_store [2, 3]) =
      Inl AttributeError"
    unfolding batch_predict_def
    by (rule batch_loop_aborts [of 3 _ _ "VInt 5"]) (simp_all add: sample_store_objects)
  have s: "snd (batch_predict sample_format (stub_pipeline NInf) sample_store [2, 3]) =
      sample_store"
    by (simp add: batch_predict_def batch_loop_store batch_item_store sample_store_objects
        sample_identifiers)
  from f s show ?thesis
    by (simp add: sample_store_objects prod_eq_iff)
qed

section \<open>Score validation\<close>

text \<open>
  For every score other than NaN the validation of \<open>make_decision\<close> is as documented:
  it raises \<open>ValueError\<close> exactly when the score is not a number in [0, 1].
\<close>

lemma make_decision_finite_scores:
  assumes "num_of score \<noteq> Some NaN"
  shows "(\<exists>m. make_decision fmt (init_engine None) score None = Inl (ValueError m)) \<longleftrightarrow>
         \<not> (is_number score \<and> in_unit score)"
proof (cases "num_of score")
  case None
  then show ?thesis
    by (simp add: make_decision_def is_number_def)
next
  case (Some x)
  show ?thesis
  proof (cases x)
    case (Fin s)
    show ?thesis
    proof (cases "0 \<le> s \<and> s \<le> 1")
      case True
      with Some Fin have n: "num_of score = Some (Fin s)" and s: "0 \<le> s" "s \<le> 1"
        by simp_all
      obtain c where c: "calculate_confidence (init_engine None) score = Inr c"
        using confidence_default_ok [OF n] by blast
      from make_decision_no_context [OF n s base_action_default [OF n]
          risk_level_default [OF n s(1)] c, of fmt]
      obtain d where "make_decision fmt (init_engine None) score None = Inr d"
        by blast
      with n s show ?thesis
        by (simp add: is_number_def in_unit_def)
    next
      case False
      with Some Fin show ?thesis
        by (auto simp: make_decision_def is_number_def in_unit_def)
    qed
  next
    case PInf
    with Some show ?thesis
      by (simp add: make_decision_def is_number_def in_unit_def)
  next
    case NInf
    with Some show ?thesis
      by (simp add: make_decision_def is_number_def in_unit_def)
  next
    case NaN
    with Some assms show ?thesis by simp
  qed
qed

lemma make_decision_spec_cases:
  "make_decision fmt (init_engine None) (VFloat (Fin (- 1 / 10))) ctx =
     Inl (ValueError (''Fraud score must be between 0 and 1, got ''
                      @ str_of fmt (VFloat (Fin (- 1 / 10)))))"
  "make_decision fmt (init_engine None) (VStr ''invalid'') ctx =
     Inl (ValueError ''Fraud score must be a number'')"
  by (simp_all add: make_decision_def)

lemma nan_base: "get_base_action (init_engine None) (VFloat NaN) = Inr ''BLOCK''"
  by (simp add: get_base_action_def init_engine_def FRAUD_THRESHOLDS_def subscript_def py_lt_def)

lemma nan_risk: "get_risk_level (init_engine None) (VFloat NaN) = Inr ''HIGH''"
  by (simp add: get_risk_level_def init_engine_def RISK_LEVELS_def py_lt_def py_le_def)

lemma nan_confidence: "calculate_confidence (init_engine None) (VFloat NaN) = Inr (Fin 1)"
proof -
  have "flt_round 3 (Fin 1) = Fin 1"
    using round_half_even_of_int [of 1000] by simp
  then show ?thesis
    by (simp add: calculate_confidence_def init_engine_def FRAUD_THRESHOLDS_def subscript_def
        py_sub_def py_min2_def del: flt_round.simps)
qed

text \<open>
  Claim C8 says that \<open>make_decision\<close> fails exactly when the score is not a number or
  lies outside [0, 1]. The float NaN is not in [0, 1], yet the test
  \<open>fraud_score < 0 or fraud_score > 1\<close> is false for it: \<open>make_decision\<close> returns a
  decision (BLOCK, HIGH, confidence 1.0) instead of raising.
\<close>

theorem nan_score_accepted:
  "make_decision sample_format (init_engine None) (VFloat NaN) None =
     Inr \<lparr>d_fraud_score = VFloat NaN, d_risk_level = ''HIGH'', d_action = ''BLOCK'',
          d_reasoning = ''Fraud score: #.#### | Base action: BLOCK'',
          d_confidence = Fin 1\<rparr>"
  by (simp add: make_decision_def nan_base nan_risk nan_confidence apply_business_rules_def
      sample_format_def)

end
